theory Spec2Isabelle
  imports Complex_Main "HOL-Library.Sublist"
begin

section \<open>JavaScript values used by the location code\<close>

text \<open>
  A JavaScript number is a finite value, one of the two infinities, or NaN
  (\<^verbatim>\<open>parseFloat\<close> produces NaN on unreadable input, and the code tests for it).
  Rounding of doubles plays no part in the comparisons below, so finite values are reals.
\<close>

datatype jsnum = NaN | NegInf | Num real | PosInf

text \<open>The comparison \<^verbatim>\<open>a < b\<close>: false whenever an operand is NaN.\<close>

fun js_lt :: "jsnum \<Rightarrow> jsnum \<Rightarrow> bool" where
  "js_lt NaN b = False"
| "js_lt a NaN = False"
| "js_lt (Num a) (Num b) = (a < b)"
| "js_lt a NegInf = False"
| "js_lt NegInf b = True"
| "js_lt PosInf b = False"
| "js_lt a PosInf = True"

text \<open>The comparison \<^verbatim>\<open>a > b\<close>.\<close>

definition js_gt :: "jsnum \<Rightarrow> jsnum \<Rightarrow> bool" where
  "js_gt a b = js_lt b a"

text \<open>\<^verbatim>\<open>isNaN(x)\<close> on a number.\<close>

fun isNaN :: "jsnum \<Rightarrow> bool" where
  "isNaN NaN = True"
| "isNaN x = False"

text \<open>Truthiness of a number: 0 and NaN are falsy.\<close>

fun num_truthy :: "jsnum \<Rightarrow> bool" where
  "num_truthy NaN = False"
| "num_truthy (Num r) = (r \<noteq> 0)"
| "num_truthy x = True"

text \<open>
  Truthiness of an optional field (\<open>None\<close> is \<^verbatim>\<open>undefined\<close> or \<^verbatim>\<open>null\<close>):
  a number as above, a string when it is not empty.
\<close>

fun opt_num_truthy :: "jsnum option \<Rightarrow> bool" where
  "opt_num_truthy None = False"
| "opt_num_truthy (Some x) = num_truthy x"

fun opt_str_truthy :: "string option \<Rightarrow> bool" where
  "opt_str_truthy None = False"
| "opt_str_truthy (Some s) = (s \<noteq> [])"

text \<open>\<^verbatim>\<open>a || b\<close> on optional strings, and \<^verbatim>\<open>a || 'literal'\<close>.\<close>

definition str_or :: "string option \<Rightarrow> string option \<Rightarrow> string option" where
  "str_or a b = (if opt_str_truthy a then a else b)"

definition str_or_lit :: "string option \<Rightarrow> string \<Rightarrow> string" where
  "str_or_lit a d = (case a of None \<Rightarrow> d | Some s \<Rightarrow> if s \<noteq> [] then s else d)"

text \<open>\<^verbatim>\<open>x || undefined\<close> on an optional number: a falsy value becomes undefined.\<close>

definition num_or_undefined :: "jsnum option \<Rightarrow> jsnum option" where
  "num_or_undefined a = (if opt_num_truthy a then a else None)"

text \<open>\<^verbatim>\<open>s.includes(sub)\<close>.\<close>

fun str_includes :: "string \<Rightarrow> string \<Rightarrow> bool" where
  "str_includes [] sub = (sub = [])"
| "str_includes (c # cs) sub = (prefix sub (c # cs) \<or> str_includes cs sub)"

text \<open>
  A thrown value: an \<^verbatim>\<open>Error\<close> (with its name and message), or anything else.
  The sum \<open>thrown + 'a\<close> is the outcome of code that may throw, or of a promise that may
  reject: \<open>Inl\<close> is the exception.
\<close>

datatype thrown = JsError (err_name: string) (err_message: string) | NonError

section \<open>api/config.ts\<close>

text \<open>
  The configuration whose \<^verbatim>\<open>API_ENDPOINTS\<close> table has the \<^verbatim>\<open>LOCATION\<close> entries that
  \<^verbatim>\<open>endpoints/location.ts\<close> reads.
\<close>

definition API_BASE_URL :: string where
  "API_BASE_URL = ''https://7cvccltb-3023.inc1.devtunnels.ms''"

definition LOCATION_UPDATE :: string where
  "LOCATION_UPDATE = ''/api/location/update''"

definition LOCATION_CURRENT :: string where
  "LOCATION_CURRENT = ''/api/location/current''"

definition LOCATION_HISTORY :: string where
  "LOCATION_HISTORY = ''/api/location/history''"

definition LOCATION_NEARBY :: string where
  "LOCATION_NEARBY = ''/api/location/nearby''"

definition LOCATION_STOP :: string where
  "LOCATION_STOP = ''/api/location/stop''"

definition REQUEST_TIMEOUT :: nat where
  "REQUEST_TIMEOUT = 30000"

definition DEMO_TOKEN :: string where
  "DEMO_TOKEN = ''demo-token''"

section \<open>api/types.ts\<close>

record 'a ApiResponse =
  success :: bool
  message :: string
  data :: "'a option"
  errors :: "string list option"

record DeviceInfo =
  platform :: "string option"
  userAgent :: "string option"
  appVersion :: "string option"

record UpdateLocationRequest =
  req_latitude :: jsnum
  req_longitude :: jsnum
  req_accuracy :: "jsnum option"
  req_altitude :: "jsnum option"
  req_heading :: "jsnum option"
  req_speed :: "jsnum option"
  req_address :: "string option"
  req_sessionId :: "string option"
  req_deviceInfo :: "DeviceInfo option"

record LocationData =
  ld_id :: string
  userId :: string
  userType :: string
  latitude :: jsnum
  longitude :: jsnum
  accuracy :: "jsnum option"
  address :: "string option"
  isActive :: bool
  lastUpdated :: string

text \<open>\<^verbatim>\<open>RequestOptions\<close>: the options an endpoint passes to \<^verbatim>\<open>fetchWithTimeout\<close>.\<close>

record RequestOptions =
  opt_method :: string
  opt_headers :: "(string \<times> string) list"
  opt_body :: "UpdateLocationRequest option"
  opt_timeout :: "nat option"

section \<open>The browser: storage, fetch\<close>

text \<open>
  \<^verbatim>\<open>localStorage\<close>: either reading it throws (storage blocked by the browser), or it
  holds the value stored under \<^verbatim>\<open>authToken\<close>, if any.
\<close>

datatype storage = Blocked thrown | Stored "string option"

text \<open>A value of the query string: the source appends \<^verbatim>\<open>x.toString()\<close>.\<close>

datatype query_value = QNum jsnum | QStr string | QBool bool

text \<open>
  One call of the browser's \<^verbatim>\<open>fetch\<close>, as the network sees it. The body is kept as
  the object that \<^verbatim>\<open>JSON.stringify\<close> serialises, the query as the list of appended
  parameters; \<open>abort_after\<close> is the delay of the abort timer armed for the call, if any.
\<close>

record fetch_call =
  url :: string
  query :: "(string \<times> query_value) list"
  fmethod :: string
  fheaders :: "(string \<times> string) list"
  fbody :: "UpdateLocationRequest option"
  abort_after :: "nat option"

text \<open>
  The body of a response as \<^verbatim>\<open>response.json()\<close> delivers it: reading fails, or the
  JSON value is \<^verbatim>\<open>null\<close>, or it is a value whose \<^verbatim>\<open>message\<close>,
  \<^verbatim>\<open>errors\<close> and \<^verbatim>\<open>data\<close> properties are read (\<open>None\<close> when the property is
  missing or falsy); \<open>j_self\<close> is the value itself, read as the payload.
\<close>

record 'a json_value =
  j_message :: "string option"
  j_errors :: "string list option"
  j_data :: "'a option"
  j_self :: 'a

datatype 'a parsed = ParseFails thrown | JsonNull | JsonValue "'a json_value"

record 'a response =
  ok :: bool
  json :: "'a parsed"

text \<open>
  What the network does with one request: it answers after some milliseconds, the
  request fails after some milliseconds, or nothing ever comes back.
\<close>

datatype 'a net = Reply nat "'a response" | Fail nat thrown | Silent

section \<open>api/utils.ts\<close>

definition getAuthToken :: "storage \<Rightarrow> thrown + string option" where
  "getAuthToken ls = (case ls of Blocked e \<Rightarrow> Inl e | Stored t \<Rightarrow> Inr t)"

definition isDemoMode :: "storage \<Rightarrow> thrown + bool" where
  "isDemoMode ls =
     (case getAuthToken ls of
        Inl e \<Rightarrow> Inl e
      | Inr token \<Rightarrow> Inr (\<not> opt_str_truthy token \<or> token = Some DEMO_TOKEN))"

definition buildHeaders :: "storage \<Rightarrow> bool \<Rightarrow> string \<Rightarrow> thrown + (string \<times> string) list" where
  "buildHeaders ls requireAuth contentType =
     (let headers = (if contentType \<noteq> ''multipart/form-data''
                     then [(''Content-Type'', contentType)] else [])
      in if requireAuth then
           (case getAuthToken ls of
              Inl e \<Rightarrow> Inl e
            | Inr None \<Rightarrow> Inr headers
            | Inr (Some token) \<Rightarrow>
                if token \<noteq> [] \<and> token \<noteq> DEMO_TOKEN
                then Inr (headers @ [(''Authorization'', ''Bearer '' @ token)])
                else Inr headers)
         else Inr headers)"

text \<open>
  \<^verbatim>\<open>handleResponse\<close>. \<open>handleResponse_try\<close> is its \<^verbatim>\<open>try\<close> block: reading the
  body may throw, and so does reading a property of \<^verbatim>\<open>null\<close> (a TypeError).
  The \<^verbatim>\<open>catch\<close> turns whatever was thrown into the parse-failure result.
\<close>

definition handleResponse_try :: "'a response \<Rightarrow> thrown + 'a ApiResponse" where
  "handleResponse_try response =
     (case json response of
        ParseFails e \<Rightarrow> Inl e
      | JsonNull \<Rightarrow> Inl (JsError ''TypeError'' ''Cannot read properties of null'')
      | JsonValue d \<Rightarrow>
          if \<not> ok response then
            Inr \<lparr>success = False,
                 message = str_or_lit (j_message d) ''An error occurred'',
                 data = None,
                 errors = Some (case j_errors d of None \<Rightarrow> [] | Some es \<Rightarrow> es)\<rparr>
          else
            Inr \<lparr>success = True,
                 message = str_or_lit (j_message d) ''Success'',
                 data = Some (case j_data d of None \<Rightarrow> j_self d | Some x \<Rightarrow> x),
                 errors = None\<rparr>)"

definition handleResponse :: "'a response \<Rightarrow> thrown + 'a ApiResponse" where
  "handleResponse response =
     (case handleResponse_try response of
        Inl error \<Rightarrow>
          Inr \<lparr>success = False, message = ''Failed to parse server response'',
               data = None, errors = Some []\<rparr>
      | Inr result \<Rightarrow> Inr result)"

text \<open>
  \<^verbatim>\<open>fetchWithTimeout\<close>: arms a timer of \<open>timeout\<close> milliseconds (the option, or
  \<open>REQUEST_TIMEOUT\<close>) that aborts the request, and calls \<^verbatim>\<open>fetch\<close>. A request still
  pending when the timer fires rejects with an AbortError, which is rethrown as the
  timeout error; any other rejection is rethrown as it is.
\<close>

definition timeout_error :: thrown where
  "timeout_error = JsError ''Error'' ''Request timeout. Please try again.''"

definition rethrow :: "thrown \<Rightarrow> thrown" where
  "rethrow error =
     (case error of
        JsError name msg \<Rightarrow> if name = ''AbortError'' then timeout_error else error
      | NonError \<Rightarrow> error)"

definition fetchWithTimeout ::
  "string \<Rightarrow> (string \<times> query_value) list \<Rightarrow> RequestOptions \<Rightarrow> 'a net
     \<Rightarrow> fetch_call list \<times> (thrown + 'a response)" where
  "fetchWithTimeout u q options n =
     (let timeout = (case opt_timeout options of None \<Rightarrow> REQUEST_TIMEOUT | Some t \<Rightarrow> t);
          call = \<lparr>url = u, query = q, fmethod = opt_method options,
                  fheaders = opt_headers options, fbody = opt_body options,
                  abort_after = Some timeout\<rparr>;
          aborted = JsError ''AbortError'' ''The user aborted a request.''
      in ([call],
          (case n of
             Reply ms r \<Rightarrow> if ms < timeout then Inr r else Inl (rethrow aborted)
           | Fail ms e \<Rightarrow> if ms < timeout then Inl (rethrow e) else Inl (rethrow aborted)
           | Silent \<Rightarrow> Inl (rethrow aborted))))"

definition handleNetworkError :: "thrown \<Rightarrow> 'a ApiResponse" where
  "handleNetworkError error =
     (case error of
        JsError name msg \<Rightarrow>
          if str_includes msg ''timeout'' then
            \<lparr>success = False,
             message = ''Request timeout. Please check your connection and try again.'',
             data = None, errors = Some []\<rparr>
          else if str_includes msg ''Failed to fetch'' then
            \<lparr>success = False,
             message = ''Network error. Please check your internet connection.'',
             data = None, errors = Some []\<rparr>
          else
            \<lparr>success = False,
             message = ''An unexpected error occurred. Please try again.'',
             data = None, errors = Some []\<rparr>
      | NonError \<Rightarrow>
          \<lparr>success = False,
           message = ''An unexpected error occurred. Please try again.'',
           data = None, errors = Some []\<rparr>)"

section \<open>api/endpoints/location.ts\<close>

text \<open>
  Every operation of \<^verbatim>\<open>locationApi\<close> is an \<^verbatim>\<open>async\<close> function whose whole body is
  one \<^verbatim>\<open>try\<close>. The function \<open>f_try\<close> is that block: it gives the calls of
  \<^verbatim>\<open>fetch\<close> it made and either what it threw (\<open>Inl\<close>) or what it returned
  (\<open>Inr\<close>). The value returned is itself an outcome: the demo-mode object, or the
  promise of \<^verbatim>\<open>handleResponse\<close>, which the block returns without awaiting it, so that
  a rejection of that promise would pass the \<^verbatim>\<open>catch\<close> by. \<open>catch_network\<close> is
  the \<^verbatim>\<open>catch\<close> clause, \<^verbatim>\<open>return handleNetworkError(error)\<close>.
\<close>

definition catch_network ::
  "thrown + (thrown + 'a ApiResponse) \<Rightarrow> thrown + 'a ApiResponse" where
  "catch_network body =
     (case body of Inl error \<Rightarrow> Inr (handleNetworkError error) | Inr returned \<Rightarrow> returned)"

text \<open>The part the five \<^verbatim>\<open>try\<close> blocks share after the demo-mode test.\<close>

definition fetch_and_handle ::
  "string \<Rightarrow> (string \<times> query_value) list \<Rightarrow> string \<Rightarrow> UpdateLocationRequest option
     \<Rightarrow> storage \<Rightarrow> 'a net \<Rightarrow> fetch_call list \<times> (thrown + (thrown + 'a ApiResponse))" where
  "fetch_and_handle u q m b ls n =
     (case buildHeaders ls True ''application/json'' of
        Inl e \<Rightarrow> ([], Inl e)
      | Inr hs \<Rightarrow>
          (case fetchWithTimeout u q
                  \<lparr>opt_method = m, opt_headers = hs, opt_body = b, opt_timeout = None\<rparr> n of
             (calls, Inl e) \<Rightarrow> (calls, Inl e)
           | (calls, Inr response) \<Rightarrow> (calls, Inr (handleResponse response))))"

definition demo_result :: "bool \<Rightarrow> string \<Rightarrow> 'a ApiResponse" where
  "demo_result s m =
     \<lparr>success = s, message = m, data = None, errors = (if s then None else Some [])\<rparr>"

definition updateLocation_try ::
  "storage \<Rightarrow> UpdateLocationRequest \<Rightarrow> 'a net
     \<Rightarrow> fetch_call list \<times> (thrown + (thrown + 'a ApiResponse))" where
  "updateLocation_try ls locationData n =
     (case isDemoMode ls of
        Inl e \<Rightarrow> ([], Inl e)
      | Inr demo \<Rightarrow>
          if demo then
            ([], Inr (Inr (demo_result False ''Location tracking not available in demo mode'')))
          else fetch_and_handle (API_BASE_URL @ LOCATION_UPDATE) [] ''POST''
                 (Some locationData) ls n)"

definition updateLocation ::
  "storage \<Rightarrow> UpdateLocationRequest \<Rightarrow> 'a net \<Rightarrow> fetch_call list \<times> (thrown + 'a ApiResponse)" where
  "updateLocation ls locationData n =
     (case updateLocation_try ls locationData n of (calls, body) \<Rightarrow> (calls, catch_network body))"

definition getCurrentLocation_try ::
  "storage \<Rightarrow> 'a net \<Rightarrow> fetch_call list \<times> (thrown + (thrown + 'a ApiResponse))" where
  "getCurrentLocation_try ls n =
     (case isDemoMode ls of
        Inl e \<Rightarrow> ([], Inl e)
      | Inr demo \<Rightarrow>
          if demo then ([], Inr (Inr (demo_result False ''Location not available in demo mode'')))
          else fetch_and_handle (API_BASE_URL @ LOCATION_CURRENT) [] ''GET'' None ls n)"

definition getCurrentLocation ::
  "storage \<Rightarrow> 'a net \<Rightarrow> fetch_call list \<times> (thrown + 'a ApiResponse)" where
  "getCurrentLocation ls n =
     (case getCurrentLocation_try ls n of (calls, body) \<Rightarrow> (calls, catch_network body))"

text \<open>
  \<^verbatim>\<open>getLocationHistory(page, limit, startDate?, endDate?)\<close>: a date is appended when it
  is truthy.
\<close>

definition opt_param :: "string \<Rightarrow> string option \<Rightarrow> (string \<times> query_value) list" where
  "opt_param k v = (case v of None \<Rightarrow> [] | Some s \<Rightarrow> if s \<noteq> [] then [(k, QStr s)] else [])"

definition getLocationHistory_try ::
  "storage \<Rightarrow> jsnum \<Rightarrow> jsnum \<Rightarrow> string option \<Rightarrow> string option \<Rightarrow> 'a net
     \<Rightarrow> fetch_call list \<times> (thrown + (thrown + 'a ApiResponse))" where
  "getLocationHistory_try ls page limit startDate endDate n =
     (case isDemoMode ls of
        Inl e \<Rightarrow> ([], Inl e)
      | Inr demo \<Rightarrow>
          if demo then
            ([], Inr (Inr (demo_result False ''Location history not available in demo mode'')))
          else fetch_and_handle (API_BASE_URL @ LOCATION_HISTORY)
                 ([(''page'', QNum page), (''limit'', QNum limit)]
                    @ opt_param ''startDate'' startDate @ opt_param ''endDate'' endDate)
                 ''GET'' None ls n)"

definition getLocationHistory ::
  "storage \<Rightarrow> jsnum \<Rightarrow> jsnum \<Rightarrow> string option \<Rightarrow> string option \<Rightarrow> 'a net
     \<Rightarrow> fetch_call list \<times> (thrown + 'a ApiResponse)" where
  "getLocationHistory ls page limit startDate endDate n =
     (case getLocationHistory_try ls page limit startDate endDate n of
        (calls, body) \<Rightarrow> (calls, catch_network body))"

definition getNearbyLocations_try ::
  "storage \<Rightarrow> jsnum \<Rightarrow> jsnum \<Rightarrow> jsnum \<Rightarrow> string option \<Rightarrow> bool \<Rightarrow> 'a net
     \<Rightarrow> fetch_call list \<times> (thrown + (thrown + 'a ApiResponse))" where
  "getNearbyLocations_try ls lat lng radius utype excludeSelf n =
     (case isDemoMode ls of
        Inl e \<Rightarrow> ([], Inl e)
      | Inr demo \<Rightarrow>
          if demo then
            ([], Inr (Inr (demo_result False ''Nearby locations not available in demo mode'')))
          else fetch_and_handle (API_BASE_URL @ LOCATION_NEARBY)
                 ([(''latitude'', QNum lat), (''longitude'', QNum lng), (''radius'', QNum radius)]
                    @ opt_param ''userType'' utype @ [(''excludeSelf'', QBool excludeSelf)])
                 ''GET'' None ls n)"

definition getNearbyLocations ::
  "storage \<Rightarrow> jsnum \<Rightarrow> jsnum \<Rightarrow> jsnum \<Rightarrow> string option \<Rightarrow> bool \<Rightarrow> 'a net
     \<Rightarrow> fetch_call list \<times> (thrown + 'a ApiResponse)" where
  "getNearbyLocations ls lat lng radius utype excludeSelf n =
     (case getNearbyLocations_try ls lat lng radius utype excludeSelf n of
        (calls, body) \<Rightarrow> (calls, catch_network body))"

definition stopLocationTracking_try ::
  "storage \<Rightarrow> 'a net \<Rightarrow> fetch_call list \<times> (thrown + (thrown + 'a ApiResponse))" where
  "stopLocationTracking_try ls n =
     (case isDemoMode ls of
        Inl e \<Rightarrow> ([], Inl e)
      | Inr demo \<Rightarrow>
          if demo then ([], Inr (Inr (demo_result True ''Location tracking stopped (demo mode)'')))
          else fetch_and_handle (API_BASE_URL @ LOCATION_STOP) [] ''POST'' None ls n)"

definition stopLocationTracking ::
  "storage \<Rightarrow> 'a net \<Rightarrow> fetch_call list \<times> (thrown + 'a ApiResponse)" where
  "stopLocationTracking ls n =
     (case stopLocationTracking_try ls n of (calls, body) \<Rightarrow> (calls, catch_network body))"

section \<open>components/Analytics.tsx: state and effects\<close>

text \<open>
  The component \<^verbatim>\<open>Analytics\<close> (the file with \<^verbatim>\<open>startTracking\<close>,
  \<^verbatim>\<open>stopTracking\<close>, \<^verbatim>\<open>searchNearby\<close> and the socket handlers). \<open>env\<close> is what
  its closures read and never write: the \<^verbatim>\<open>userData\<close> prop and the navigator strings.
\<close>

record user =
  ud_id :: "string option"
  ud_studentId :: "string option"
  ud_role :: "string option"

record env =
  userData :: "user option"
  nav_platform :: string
  nav_userAgent :: string

text \<open>\<^verbatim>\<open>userData?.id\<close>, \<^verbatim>\<open>userData?.studentId\<close>, \<^verbatim>\<open>userData?.role\<close>.\<close>

definition user_id :: "env \<Rightarrow> string option" where
  "user_id e = (case userData e of None \<Rightarrow> None | Some u \<Rightarrow> ud_id u)"

definition user_studentId :: "env \<Rightarrow> string option" where
  "user_studentId e = (case userData e of None \<Rightarrow> None | Some u \<Rightarrow> ud_studentId u)"

definition user_role :: "env \<Rightarrow> string option" where
  "user_role e = (case userData e of None \<Rightarrow> None | Some u \<Rightarrow> ud_role u)"

text \<open>\<^verbatim>\<open>const userId = userData?.id || 'current'\<close>.\<close>

definition self_id :: "env \<Rightarrow> string" where
  "self_id e = str_or_lit (user_id e) ''current''"

text \<open>
  The position object the socket handler builds and \<^verbatim>\<open>updateMapMarker\<close> takes:
  \<^verbatim>\<open>{ latitude: number; longitude: number; accuracy?: number; address?: string }\<close>.
\<close>

record location =
  loc_latitude :: jsnum
  loc_longitude :: jsnum
  loc_accuracy :: "jsnum option"
  loc_address :: "string option"

text \<open>
  The payload of a \<^verbatim>\<open>location:update\<close> event, in either shape: with a nested
  \<^verbatim>\<open>location\<close> object, or flat with \<^verbatim>\<open>latitude\<close> and \<^verbatim>\<open>longitude\<close> of its
  own. \<open>None\<close> is a property that is missing.
\<close>

record update_event =
  ev_userId :: "string option"
  ev_userType :: "string option"
  ev_location :: "location option"
  ev_latitude :: "jsnum option"
  ev_longitude :: "jsnum option"
  ev_accuracy :: "jsnum option"
  ev_address :: "string option"
  ev_timestamp :: "string option"

text \<open>\<^verbatim>\<open>GeolocationCoordinates\<close>: the last three are \<^verbatim>\<open>null\<close> when unknown.\<close>

record coords =
  c_latitude :: jsnum
  c_longitude :: jsnum
  c_accuracy :: jsnum
  c_altitude :: "jsnum option"
  c_heading :: "jsnum option"
  c_speed :: "jsnum option"

datatype position_error = PERMISSION_DENIED | POSITION_UNAVAILABLE | TIMEOUT | OtherCode

text \<open>
  A Leaflet marker: where it stands, whether its icon is the current user's, and the
  values its popup text is built from (title, address, accuracy); \<open>mk_open\<close> when the
  popup was opened with \<^verbatim>\<open>openPopup()\<close>.
\<close>

record marker =
  mk_latitude :: jsnum
  mk_longitude :: jsnum
  mk_current :: bool
  mk_title :: string
  mk_address :: string
  mk_accuracy :: "jsnum option"
  mk_open :: bool

record map_view =
  center_latitude :: jsnum
  center_longitude :: jsnum
  zoom :: nat

record socket =
  connected :: bool
  sid :: "string option"

datatype emitted = LocationUpdate UpdateLocationRequest | LocationStop

text \<open>
  A toast: \<^verbatim>\<open>showSuccess(text)\<close> or \<^verbatim>\<open>showError(text)\<close>. The two texts built from a
  number keep the number: the low-accuracy warning and \<^verbatim>\<open>Found n nearby locations\<close>.
  The pin emoji that ends some texts of the source is left out.
\<close>

datatype toast =
    ShowSuccess string
  | ShowError string
  | ShowErrorLowAccuracy jsnum
  | ShowSuccessFound nat

record NearbyLocation =
  nb_userId :: string
  nb_userType :: string
  nb_location :: location

record NearbyLocationsResponse =
  nb_count :: nat
  locations :: "NearbyLocation list"

text \<open>
  The state: the component's \<^verbatim>\<open>useState\<close> variables and refs, the browser objects it
  uses (\<^verbatim>\<open>window.L\<close>, \<^verbatim>\<open>navigator.geolocation\<close> with its active watch handles,
  \<^verbatim>\<open>localStorage\<close>), and the effects it has had: calls of \<^verbatim>\<open>fetch\<close>, events emitted
  on the socket, toasts, console lines. The layers of the map are the markers of
  \<open>markersRef\<close>: every path removes the old layer when it stores a new marker.
\<close>

record state =
  currentLocation :: "LocationData option"
  isTracking :: bool
  nearbyLocations :: "NearbyLocation list"
  watchId :: "nat option"
  searchRadius :: jsnum
  locationAddress :: string
  isRequestingPermission :: bool
  manualLatitude :: string
  manualLongitude :: string
  isLoadingManualLocation :: bool
  markersRef :: "string \<rightharpoonup> marker"
  mapInstanceRef :: "map_view option"
  socketRef :: "socket option"
  leaflet :: bool
  geolocation :: bool
  watches :: "nat list"
  next_watch :: nat
  localStorage :: storage
  fetched :: "fetch_call list"
  emitted :: "emitted list"
  toasts :: "toast list"
  console :: "string list"

text \<open>
  A closure reads the state variables of the render that created it. \<open>render\<close> holds
  the two that \<^verbatim>\<open>updateMapMarker\<close> reads, as its closure sees them.
\<close>

record render =
  r_locationAddress :: string
  r_currentLocation :: "LocationData option"

definition render_of :: "state \<Rightarrow> render" where
  "render_of st = \<lparr>r_locationAddress = locationAddress st, r_currentLocation = currentLocation st\<rparr>"

definition showSuccess :: "string \<Rightarrow> state \<Rightarrow> state" where
  "showSuccess m st = st\<lparr>toasts := toasts st @ [ShowSuccess m]\<rparr>"

definition showError :: "string \<Rightarrow> state \<Rightarrow> state" where
  "showError m st = st\<lparr>toasts := toasts st @ [ShowError m]\<rparr>"

text \<open>\<^verbatim>\<open>console.log\<close>, \<^verbatim>\<open>console.warn\<close>, \<^verbatim>\<open>console.error\<close>: the text of the line.\<close>

definition console_line :: "string \<Rightarrow> state \<Rightarrow> state" where
  "console_line m st = st\<lparr>console := console st @ [m]\<rparr>"

text \<open>
  \<^verbatim>\<open>if (socketRef.current && socketRef.current.connected) socketRef.current.emit(...)\<close>.
\<close>

definition emit_if_connected :: "emitted \<Rightarrow> state \<Rightarrow> state" where
  "emit_if_connected ev st =
     (case socketRef st of
        None \<Rightarrow> st
      | Some s \<Rightarrow> if connected s then st\<lparr>emitted := emitted st @ [ev]\<rparr> else st)"

text \<open>\<^verbatim>\<open>socketRef.current?.id\<close>.\<close>

definition session_id :: "state \<Rightarrow> string option" where
  "session_id st = (case socketRef st of None \<Rightarrow> None | Some s \<Rightarrow> sid s)"

text \<open>\<^verbatim>\<open>mapInstanceRef.current && window.L\<close>.\<close>

definition map_ready :: "state \<Rightarrow> bool" where
  "map_ready st = (mapInstanceRef st \<noteq> None \<and> leaflet st)"

text \<open>
  \<^verbatim>\<open>navigator.geolocation.watchPosition\<close> gives a new handle and starts the watch;
  \<^verbatim>\<open>clearWatch\<close> ends it.
\<close>

definition watchPosition :: "state \<Rightarrow> nat \<times> state" where
  "watchPosition st =
     (next_watch st,
      st\<lparr>watches := watches st @ [next_watch st], next_watch := Suc (next_watch st)\<rparr>)"

definition clearWatch :: "nat \<Rightarrow> state \<Rightarrow> state" where
  "clearWatch h st = st\<lparr>watches := removeAll h (watches st)\<rparr>"

text \<open>
  \<^verbatim>\<open>getAddressFromCoordinates\<close> calls the reverse geocoder with a plain \<^verbatim>\<open>fetch\<close>
  and always resolves with a string (its own \<^verbatim>\<open>catch\<close> returns one). The string is
  the input of the segment that runs after the \<^verbatim>\<open>await\<close>.
\<close>

definition geocode_call :: "jsnum \<Rightarrow> jsnum \<Rightarrow> fetch_call" where
  "geocode_call lat lng =
     \<lparr>url = ''https://nominatim.openstreetmap.org/reverse'',
      query = [(''format'', QStr ''json''), (''lat'', QNum lat), (''lon'', QNum lng),
               (''zoom'', QStr ''18''), (''addressdetails'', QStr ''1'')],
      fmethod = ''GET'',
      fheaders = [(''User-Agent'', ''Adhyanguru-Student-Dashboard/1.0'')],
      fbody = None, abort_after = None\<rparr>"

definition getAddressFromCoordinates :: "jsnum \<Rightarrow> jsnum \<Rightarrow> state \<Rightarrow> state" where
  "getAddressFromCoordinates lat lng st = st\<lparr>fetched := fetched st @ [geocode_call lat lng]\<rparr>"

text \<open>The object sent to the REST service and on the socket.\<close>

definition location_request ::
  "env \<Rightarrow> state \<Rightarrow> jsnum \<Rightarrow> jsnum \<Rightarrow> jsnum option \<Rightarrow> jsnum option \<Rightarrow> jsnum option
     \<Rightarrow> jsnum option \<Rightarrow> string \<Rightarrow> UpdateLocationRequest" where
  "location_request e st lat lng acc alt hdg spd addr =
     \<lparr>req_latitude = lat, req_longitude = lng, req_accuracy = acc,
      req_altitude = num_or_undefined alt, req_heading = num_or_undefined hdg,
      req_speed = num_or_undefined spd, req_address = Some addr,
      req_sessionId = session_id st,
      req_deviceInfo = Some \<lparr>platform = Some (nav_platform e),
                              userAgent = Some (nav_userAgent e),
                              appVersion = Some ''1.0.0''\<rparr>\<rparr>"

text \<open>The value the self paths pass to \<^verbatim>\<open>setCurrentLocation\<close>.\<close>

definition self_location ::
  "env \<Rightarrow> string \<Rightarrow> jsnum \<Rightarrow> jsnum \<Rightarrow> jsnum option \<Rightarrow> string \<Rightarrow> LocationData" where
  "self_location e now lat lng acc addr =
     \<lparr>ld_id = self_id e, userId = self_id e, userType = str_or_lit (user_role e) ''Student'',
      latitude = lat, longitude = lng, accuracy = acc, address = Some addr,
      isActive = True, lastUpdated = now\<rparr>"

text \<open>
  \<^verbatim>\<open>result.message && !result.message.includes('timeout') && ...\<close>: the test before a
  \<^verbatim>\<open>console.warn\<close>, on the message of a result or of a caught error.
\<close>

definition worth_warning :: "string option \<Rightarrow> string list \<Rightarrow> bool" where
  "worth_warning m quiet =
     (case m of None \<Rightarrow> False
      | Some s \<Rightarrow> s \<noteq> [] \<and> list_all (\<lambda>w. \<not> str_includes s w) quiet)"

definition thrown_message :: "thrown \<Rightarrow> string option" where
  "thrown_message error = (case error of JsError name msg \<Rightarrow> Some msg | NonError \<Rightarrow> None)"

section \<open>components/Analytics.tsx: markers and the socket handler\<close>

text \<open>
  \<^verbatim>\<open>updateMapMarker(userId, location, userType)\<close>. It does nothing without a map;
  otherwise it replaces the marker stored under \<open>uid\<close>, and for the current user also
  centres the map and sets \<^verbatim>\<open>currentLocation\<close> (without accuracy or address).
\<close>

definition updateMapMarker ::
  "env \<Rightarrow> render \<Rightarrow> string \<Rightarrow> string \<Rightarrow> location \<Rightarrow> string option \<Rightarrow> state \<Rightarrow> state" where
  "updateMapMarker e r now uid loc utype st =
     (if \<not> map_ready st then st
      else
        let isCurrentUser = (Some uid = user_id e \<or> uid = ''current'');
            displayAddress =
              str_or_lit
                (str_or (loc_address loc)
                   (str_or (Some (r_locationAddress r))
                      (case r_currentLocation r of None \<Rightarrow> None | Some c \<Rightarrow> address c)))
                [];
            displayAccuracy =
              (case loc_accuracy loc of
                 Some a \<Rightarrow> Some a
               | None \<Rightarrow> (case r_currentLocation r of None \<Rightarrow> None | Some c \<Rightarrow> accuracy c));
            m = \<lparr>mk_latitude = loc_latitude loc, mk_longitude = loc_longitude loc,
                 mk_current = isCurrentUser,
                 mk_title = (if isCurrentUser then ''Your Exact Location''
                             else str_or_lit utype ''User''),
                 mk_address = displayAddress,
                 mk_accuracy = (if isCurrentUser then displayAccuracy else None),
                 mk_open = False\<rparr>;
            st1 = st\<lparr>markersRef := (markersRef st)(uid \<mapsto> m)\<rparr>
        in if isCurrentUser then
             st1\<lparr>mapInstanceRef :=
                    Some \<lparr>center_latitude = loc_latitude loc,
                          center_longitude = loc_longitude loc, zoom = 15\<rparr>,
                  currentLocation :=
                    Some \<lparr>ld_id = uid, userId = uid, userType = str_or_lit utype ''Student'',
                          latitude = loc_latitude loc, longitude = loc_longitude loc,
                          accuracy = None, address = None, isActive = True,
                          lastUpdated = now\<rparr>\<rparr>
           else st1)"

text \<open>\<^verbatim>\<open>updateNearbyMarkers\<close>: \<^verbatim>\<open>locations.forEach\<close> in order.\<close>

fun updateNearbyMarkers ::
  "env \<Rightarrow> render \<Rightarrow> string \<Rightarrow> NearbyLocation list \<Rightarrow> state \<Rightarrow> state" where
  "updateNearbyMarkers e r now [] st = st"
| "updateNearbyMarkers e r now (item # items) st =
     updateNearbyMarkers e r now items
       (updateMapMarker e r now (nb_userId item) (nb_location item) (Some (nb_userType item)) st)"

text \<open>
  The first step of the \<^verbatim>\<open>location:update\<close> handler: the position of the event. A
  nested \<^verbatim>\<open>location\<close> object is taken as it is; otherwise the flat fields are taken
  when \<^verbatim>\<open>data.latitude && data.longitude\<close> is truthy; otherwise there is none.
\<close>

definition event_location :: "update_event \<Rightarrow> location option" where
  "event_location d =
     (case ev_location d of
        Some l \<Rightarrow> Some l
      | None \<Rightarrow>
          (case (ev_latitude d, ev_longitude d) of
             (Some lat, Some lng) \<Rightarrow>
               if num_truthy lat \<and> num_truthy lng
               then Some \<lparr>loc_latitude = lat, loc_longitude = lng,
                          loc_accuracy = ev_accuracy d, loc_address = ev_address d\<rparr>
               else None
           | _ \<Rightarrow> None))"

text \<open>
  \<^verbatim>\<open>data.userId === userData?.id || data.userId === userData?.studentId\<close>: strings
  or \<^verbatim>\<open>undefined\<close> on both sides.
\<close>

definition event_from_self :: "env \<Rightarrow> update_event \<Rightarrow> bool" where
  "event_from_self e d = (ev_userId d = user_id e \<or> ev_userId d = user_studentId e)"

text \<open>\<^verbatim>\<open>isCurrentUser || !accuracy || accuracy < 1000\<close>.\<close>

definition passes_gate :: "bool \<Rightarrow> jsnum option \<Rightarrow> bool" where
  "passes_gate isCurrentUser acc =
     (isCurrentUser \<or> \<not> opt_num_truthy acc
        \<or> (case acc of None \<Rightarrow> False | Some a \<Rightarrow> js_lt a (Num 1000)))"

text \<open>\<^verbatim>\<open>accuracy && accuracy > 1000\<close>.\<close>

definition low_accuracy :: "jsnum option \<Rightarrow> bool" where
  "low_accuracy acc =
     (opt_num_truthy acc \<and> (case acc of None \<Rightarrow> False | Some a \<Rightarrow> js_gt a (Num 1000)))"

text \<open>
  \<^verbatim>\<open>socket.on('location:update', (data) => ...)\<close>. \<open>now\<close> is
  \<^verbatim>\<open>new Date().toISOString()\<close>; \<open>r\<close> is the render whose closure registered the handler.
\<close>

definition on_location_update ::
  "env \<Rightarrow> render \<Rightarrow> string \<Rightarrow> update_event \<Rightarrow> state \<Rightarrow> state" where
  "on_location_update e r now d st =
     (let st0 = console_line ''Location update received:'' st in
      case event_location d of
        None \<Rightarrow> st0
      | Some loc \<Rightarrow>
          let isCurrentUser = event_from_self e d;
              acc = loc_accuracy loc
          in if passes_gate isCurrentUser acc then
               let uid = str_or_lit (str_or (ev_userId d) (user_id e)) ''current'';
                   utype = str_or_lit (ev_userType d) ''Student'';
                   st1 = updateMapMarker e r now uid loc (Some utype) st0
               in if isCurrentUser then
                    let st2 = st1\<lparr>currentLocation :=
                                Some \<lparr>ld_id = uid, userId = uid, userType = utype,
                                      latitude = loc_latitude loc,
                                      longitude = loc_longitude loc,
                                      accuracy = loc_accuracy loc,
                                      address = loc_address loc, isActive = True,
                                      lastUpdated = str_or_lit (ev_timestamp d) now\<rparr>\<rparr>;
                        st3 = (case loc_address loc of
                                 None \<Rightarrow> st2
                               | Some a \<Rightarrow> if a \<noteq> [] then st2\<lparr>locationAddress := a\<rparr> else st2)
                    in (case acc of
                          None \<Rightarrow> st3
                        | Some a \<Rightarrow>
                            if low_accuracy acc
                            then st3\<lparr>toasts := toasts st3 @ [ShowErrorLowAccuracy a]\<rparr>
                            else st3)
                  else st1
             else console_line ''Location accuracy too low, ignoring update:'' st0)"

section \<open>components/Analytics.tsx: startTracking and the position watch\<close>

text \<open>
  An \<^verbatim>\<open>async\<close> function runs in segments: from its call, or from the delivery of what
  it awaited, up to the next \<^verbatim>\<open>await\<close>. Other handlers may run between two segments.
  Each segment is a function of the state; what it awaits next is part of its result, and
  what was awaited is an argument of the segment that follows.

  \<^verbatim>\<open>startTracking()\<close> up to \<^verbatim>\<open>getCurrentPosition\<close>: the boolean tells whether a
  position was requested.
\<close>

definition startTracking :: "state \<Rightarrow> state \<times> bool" where
  "startTracking st =
     (if \<not> geolocation st
      then (showError ''Geolocation is not supported by your browser'' st, False)
      else (st\<lparr>isRequestingPermission := True\<rparr>, True))"

text \<open>The error callback of \<^verbatim>\<open>getCurrentPosition\<close>.\<close>

definition startTracking_error :: "position_error \<Rightarrow> state \<Rightarrow> state" where
  "startTracking_error code st =
     showError
       (case code of
          PERMISSION_DENIED \<Rightarrow>
            ''Location permission denied. Please allow location access in your browser settings.''
        | POSITION_UNAVAILABLE \<Rightarrow> ''Location information unavailable.''
        | TIMEOUT \<Rightarrow> ''Location request timed out. Please try again.''
        | OtherCode \<Rightarrow> ''Unable to access your location'')
       (console_line ''Geolocation permission error:'' (st\<lparr>isRequestingPermission := False\<rparr>))"

text \<open>The success callback, up to \<^verbatim>\<open>await getAddressFromCoordinates\<close>.\<close>

definition startTracking_position :: "coords \<Rightarrow> state \<Rightarrow> state" where
  "startTracking_position c st =
     getAddressFromCoordinates (c_latitude c) (c_longitude c)
       (st\<lparr>isRequestingPermission := False, isTracking := True\<rparr>)"

text \<open>
  From the address to \<^verbatim>\<open>await locationApi.updateLocation(locationData)\<close>: the marker
  is pinned, the request object is built and the REST call is made. The result gives the
  request object and the outcome of the call, both used after the \<^verbatim>\<open>await\<close>.
\<close>

definition startTracking_address ::
  "env \<Rightarrow> coords \<Rightarrow> string \<Rightarrow> 'a net \<Rightarrow> state
     \<Rightarrow> state \<times> UpdateLocationRequest \<times> (thrown + 'a ApiResponse)" where
  "startTracking_address e c addr n st =
     (let st1 = st\<lparr>locationAddress := addr\<rparr>;
          st2 = (if map_ready st1 then
                   st1\<lparr>markersRef := (markersRef st1)(self_id e \<mapsto>
                          \<lparr>mk_latitude = c_latitude c, mk_longitude = c_longitude c,
                           mk_current = True, mk_title = ''Your Exact Location'',
                           mk_address = addr, mk_accuracy = Some (c_accuracy c),
                           mk_open = True\<rparr>),
                       mapInstanceRef :=
                         Some \<lparr>center_latitude = c_latitude c,
                               center_longitude = c_longitude c, zoom = 17\<rparr>\<rparr>
                 else st1);
          locationData = location_request e st2 (c_latitude c) (c_longitude c)
                           (Some (c_accuracy c)) (c_altitude c) (c_heading c) (c_speed c) addr
      in case updateLocation (localStorage st2) locationData n of
           (calls, result) \<Rightarrow> (st2\<lparr>fetched := fetched st2 @ calls\<rparr>, locationData, result))"

text \<open>
  After the \<^verbatim>\<open>await\<close>: the three branches (success, failure result, caught exception)
  each set \<^verbatim>\<open>currentLocation\<close>, emit on the socket and show the toast; then the watch
  is opened and its handle stored.
\<close>

definition startTracking_result ::
  "env \<Rightarrow> string \<Rightarrow> coords \<Rightarrow> string \<Rightarrow> UpdateLocationRequest \<Rightarrow> thrown + 'a ApiResponse
     \<Rightarrow> state \<Rightarrow> state" where
  "startTracking_result e now c addr locationData result st =
     (let st1 = st\<lparr>currentLocation :=
                     Some (self_location e now (c_latitude c) (c_longitude c)
                             (Some (c_accuracy c)) addr)\<rparr>;
          st2 = emit_if_connected (LocationUpdate locationData) st1;
          st3 = (case result of
                   Inr res \<Rightarrow>
                     if success res then st2
                     else if worth_warning (Some (message res)) [''timeout'', ''demo mode'']
                     then console_line ''Location API error:'' st2 else st2
                 | Inl error \<Rightarrow>
                     if worth_warning (thrown_message error)
                          [''timeout'', ''TimeoutError'', ''demo mode'']
                     then console_line ''Location API unavailable, using local tracking only'' st2
                     else st2);
          st4 = showSuccess ''Location tracking started! Exact location pinned on map'' st3
      in case watchPosition st4 of (h, st5) \<Rightarrow> st5\<lparr>watchId := Some h\<rparr>)"

text \<open>The success callback of \<^verbatim>\<open>watchPosition\<close>, up to the address lookup.\<close>

definition watch_position :: "coords \<Rightarrow> state \<Rightarrow> state" where
  "watch_position c st = getAddressFromCoordinates (c_latitude c) (c_longitude c) st"



text \<open>The error callback of \<^verbatim>\<open>watchPosition\<close>.\<close>

definition watch_error :: "position_error \<Rightarrow> state \<Rightarrow> state" where
  "watch_error code st =
     (showError
        (case code of
           PERMISSION_DENIED \<Rightarrow> ''Location permission denied. Please allow location access.''
         | POSITION_UNAVAILABLE \<Rightarrow> ''Location information unavailable.''
         | TIMEOUT \<Rightarrow> ''Location request timed out.''
         | OtherCode \<Rightarrow> ''Unable to retrieve your location'')
        (console_line ''Geolocation watch error:'' st))\<lparr>isTracking := False\<rparr>"

section \<open>components/Analytics.tsx: stopTracking, searchNearby, manual coordinates\<close>

text \<open>
  \<^verbatim>\<open>stopTracking()\<close> up to \<^verbatim>\<open>await locationApi.stopLocationTracking()\<close>: the watch of
  \<^verbatim>\<open>watchId\<close> is cleared, \<^verbatim>\<open>isTracking\<close> is reset and the REST call is made.
\<close>

definition stopTracking :: "'a net \<Rightarrow> state \<Rightarrow> state \<times> (thrown + 'a ApiResponse)" where
  "stopTracking n st =
     (let st1 = (case watchId st of
                   None \<Rightarrow> st
                 | Some h \<Rightarrow> (clearWatch h st)\<lparr>watchId := None\<rparr>);
          st2 = st1\<lparr>isTracking := False\<rparr>
      in case stopLocationTracking (localStorage st2) n of
           (calls, result) \<Rightarrow> (st2\<lparr>fetched := fetched st2 @ calls\<rparr>, result))"

text \<open>
  After the \<^verbatim>\<open>await\<close>, which has no \<^verbatim>\<open>try\<close> around it: a rejection would end the
  function there.
\<close>

definition stopTracking_result :: "thrown + 'a ApiResponse \<Rightarrow> state \<Rightarrow> state" where
  "stopTracking_result result st =
     (case result of
        Inl error \<Rightarrow> st
      | Inr res \<Rightarrow>
          let st1 = emit_if_connected LocationStop st;
              st2 = (if \<not> success res \<and>
                        worth_warning (Some (message res))
                          [''timeout'', ''TimeoutError'', ''demo mode'']
                     then console_line ''Stop tracking API error:'' st1 else st1)
          in showSuccess ''Location tracking stopped'' st2)"

text \<open>
  The tracking button: \<^verbatim>\<open>onClick={isTracking ? stopTracking : startTracking}\<close>,
  \<^verbatim>\<open>disabled={isRequestingPermission}\<close>. The result tells what the handler awaits.
\<close>

datatype 'a awaited = Nothing | Position | StopResult "thrown + 'a ApiResponse"

definition tracking_button_click :: "'a net \<Rightarrow> state \<Rightarrow> state \<times> 'a awaited" where
  "tracking_button_click n st =
     (if isRequestingPermission st then (st, Nothing)
      else if isTracking st then
        (case stopTracking n st of (st1, result) \<Rightarrow> (st1, StopResult result))
      else
        (case startTracking st of (st1, requested) \<Rightarrow>
           (st1, if requested then Position else Nothing)))"

text \<open>
  \<^verbatim>\<open>searchNearby()\<close> up to \<^verbatim>\<open>await locationApi.getNearbyLocations(...)\<close>. Without a
  current location it shows an error and returns; the result is then \<open>None\<close>.
\<close>

definition searchNearby ::
  "NearbyLocationsResponse net \<Rightarrow> state
     \<Rightarrow> state \<times> (thrown + NearbyLocationsResponse ApiResponse) option" where
  "searchNearby n st =
     (case currentLocation st of
        None \<Rightarrow> (showError ''Please start location tracking first'' st, None)
      | Some cur \<Rightarrow>
          (case getNearbyLocations (localStorage st) (latitude cur) (longitude cur)
                  (searchRadius st) None True n of
             (calls, result) \<Rightarrow> (st\<lparr>fetched := fetched st @ calls\<rparr>, Some result)))"

text \<open>After the \<^verbatim>\<open>await\<close>: \<open>r\<close> is the render in which the button was clicked.\<close>

definition searchNearby_result ::
  "env \<Rightarrow> render \<Rightarrow> string \<Rightarrow> thrown + NearbyLocationsResponse ApiResponse \<Rightarrow> state \<Rightarrow> state" where
  "searchNearby_result e r now result st =
     (case result of
        Inl error \<Rightarrow>
          showError ''Failed to search nearby locations''
            (console_line ''Error searching nearby:'' st)
      | Inr res \<Rightarrow>
          (case data res of
             None \<Rightarrow> st
           | Some d \<Rightarrow>
               if success res then
                 (let st1 = updateNearbyMarkers e r now (locations d)
                              (st\<lparr>nearbyLocations := locations d\<rparr>)
                  in st1\<lparr>toasts := toasts st1 @ [ShowSuccessFound (nb_count d)]\<rparr>)
               else st))"

text \<open>
  \<^verbatim>\<open>getLocationFromCoordinates()\<close>, the handler of the manual coordinate form, up to
  the address lookup. \<open>parse s\<close> stands for \<^verbatim>\<open>parseFloat(s.trim())\<close>. The result is
  \<open>None\<close> when the function returned at a validation, else the parsed pair.
\<close>

definition getLocationFromCoordinates ::
  "(string \<Rightarrow> jsnum) \<Rightarrow> state \<Rightarrow> state \<times> (jsnum \<times> jsnum) option" where
  "getLocationFromCoordinates parse st =
     (let lat = parse (manualLatitude st);
          lng = parse (manualLongitude st)
      in if isNaN lat \<or> isNaN lng then
           (showError ''Please enter valid latitude and longitude values'' st, None)
         else if js_lt lat (Num (- 90)) \<or> js_gt lat (Num 90) then
           (showError ''Latitude must be between -90 and 90'' st, None)
         else if js_lt lng (Num (- 180)) \<or> js_gt lng (Num 180) then
           (showError ''Longitude must be between -180 and 180'' st, None)
         else
           (getAddressFromCoordinates lat lng (st\<lparr>isLoadingManualLocation := True\<rparr>),
            Some (lat, lng)))"

text \<open>
  From the address to \<^verbatim>\<open>await locationApi.updateLocation(locationData)\<close>, or to the end
  when the map is missing (\<open>None\<close>; the \<^verbatim>\<open>finally\<close> clause has then run).
\<close>

definition getLocationFromCoordinates_address ::
  "env \<Rightarrow> string \<Rightarrow> jsnum \<Rightarrow> jsnum \<Rightarrow> string \<Rightarrow> 'a net \<Rightarrow> state
     \<Rightarrow> state \<times> (UpdateLocationRequest \<times> (thrown + 'a ApiResponse)) option" where
  "getLocationFromCoordinates_address e now lat lng addr n st =
     (let st1 = st\<lparr>locationAddress := addr\<rparr>
      in if map_ready st1 then
           (let st2 = st1\<lparr>markersRef := (markersRef st1)(self_id e \<mapsto>
                             \<lparr>mk_latitude = lat, mk_longitude = lng, mk_current = True,
                              mk_title = ''Location from Coordinates'', mk_address = addr,
                              mk_accuracy = None, mk_open = True\<rparr>),
                          mapInstanceRef :=
                            Some \<lparr>center_latitude = lat, center_longitude = lng, zoom = 17\<rparr>,
                          currentLocation := Some (self_location e now lat lng None addr)\<rparr>;
                locationData = location_request e st2 lat lng None None None None addr
            in case updateLocation (localStorage st2) locationData n of
                 (calls, result) \<Rightarrow>
                   (st2\<lparr>fetched := fetched st2 @ calls\<rparr>, Some (locationData, result)))
         else
           ((showError ''Map not initialized. Please wait for map to load.'' st1)
              \<lparr>isLoadingManualLocation := False\<rparr>, None))"

text \<open>After the \<^verbatim>\<open>await\<close>, with the \<^verbatim>\<open>catch\<close> and \<^verbatim>\<open>finally\<close> clauses.\<close>

definition getLocationFromCoordinates_result ::
  "UpdateLocationRequest \<Rightarrow> thrown + 'a ApiResponse \<Rightarrow> state \<Rightarrow> state" where
  "getLocationFromCoordinates_result locationData result st =
     (case result of
        Inl error \<Rightarrow>
          (showError ''Failed to get location from coordinates''
             (console_line ''Error getting location from coordinates:'' st))
            \<lparr>isLoadingManualLocation := False\<rparr>
      | Inr res \<Rightarrow>
          (let st1 = emit_if_connected (LocationUpdate locationData) st;
               st2 = (if \<not> success res \<and>
                         worth_warning (Some (message res))
                           [''timeout'', ''TimeoutError'', ''demo mode'']
                      then console_line ''Location API unavailable, using local display only'' st1
                      else st1)
           in (showSuccess ''Location set from coordinates!'' st2)
                \<lparr>isLoadingManualLocation := False\<rparr>))"

section \<open>Specification predicates\<close>

text \<open>
  The request runs into the timeout: no answer and no failure arrives before
  \<open>REQUEST_TIMEOUT\<close> milliseconds have passed.
\<close>

definition timed_out :: "'a net \<Rightarrow> bool" where
  "timed_out n =
     (case n of
        Reply ms r \<Rightarrow> REQUEST_TIMEOUT \<le> ms
      | Fail ms e \<Rightarrow> REQUEST_TIMEOUT \<le> ms
      | Silent \<Rightarrow> True)"

text \<open>
  The request fails: it times out, the connection fails, or the body of the answer
  cannot be read as a JSON value with properties.
\<close>

definition request_fails :: "'a net \<Rightarrow> bool" where
  "request_fails n =
     (case n of
        Reply ms r \<Rightarrow> REQUEST_TIMEOUT \<le> ms \<or> (case json r of JsonValue d \<Rightarrow> False | _ \<Rightarrow> True)
      | Fail ms e \<Rightarrow> True
      | Silent \<Rightarrow> True)"

text \<open>
  The outcome of a \<^verbatim>\<open>locationApi\<close> operation is recoverable: the promise resolves with
  a result object (it does not reject); outside demo mode a failed request gives
  \<^verbatim>\<open>success: false\<close> with a message, a timed-out one the timeout message; and every
  \<^verbatim>\<open>fetch\<close> it made was armed with the fixed timeout.
\<close>

definition recoverable :: "storage \<Rightarrow> 'a net \<Rightarrow> fetch_call list \<times> (thrown + 'a ApiResponse) \<Rightarrow> bool" where
  "recoverable ls n out =
     ((case snd out of
         Inl e \<Rightarrow> False
       | Inr r \<Rightarrow>
           (isDemoMode ls = Inr False \<and> request_fails n \<longrightarrow> \<not> success r \<and> message r \<noteq> []) \<and>
           (isDemoMode ls = Inr False \<and> timed_out n \<longrightarrow>
              message r = ''Request timeout. Please check your connection and try again.''))
      \<and> list_all (\<lambda>c. abort_after c = Some REQUEST_TIMEOUT) (fst out))"

text \<open>
  The operation made exactly one request, whose headers are the JSON content type and
  \<^verbatim>\<open>Authorization: Bearer <t>\<close>.
\<close>

definition carries_bearer :: "string \<Rightarrow> fetch_call list \<times> (thrown + 'a ApiResponse) \<Rightarrow> bool" where
  "carries_bearer t out =
     (case fst out of
        [c] \<Rightarrow> fheaders c = [(''Content-Type'', ''application/json''),
                              (''Authorization'', ''Bearer '' @ t)]
      | _ \<Rightarrow> False)"

text \<open>The tokens for which \<^verbatim>\<open>isDemoMode\<close> holds: none, the empty string, the sentinel.\<close>

definition demo_token :: "string option \<Rightarrow> bool" where
  "demo_token token = (token = None \<or> token = Some [] \<or> token = Some DEMO_TOKEN)"

text \<open>
  The accuracy field of a \<^verbatim>\<open>location:update\<close> event: that of the nested location object
  when there is one, else the flat one.
\<close>

definition event_accuracy :: "update_event \<Rightarrow> jsnum option" where
  "event_accuracy d = (case ev_location d of Some l \<Rightarrow> loc_accuracy l | None \<Rightarrow> ev_accuracy d)"




text \<open>
  The push channel is connected.
\<close>

definition socket_connected :: "state \<Rightarrow> bool" where
  "socket_connected st = (case socketRef st of None \<Rightarrow> False | Some s \<Rightarrow> connected s)"

text \<open>
  The state when \<^verbatim>\<open>stopTracking\<close> has run to its end with nothing in between: the
  session is stopped.
\<close>

definition stopped :: "'a net \<Rightarrow> state \<Rightarrow> state" where
  "stopped n st = (case stopTracking n st of (st1, result) \<Rightarrow> stopTracking_result result st1)"



text \<open>
  A call of \<^verbatim>\<open>startTracking\<close> run to its end with nothing in between: the position
  request is granted with \<open>c\<close>, the geocoder gives \<open>addr\<close>, the network treats the REST
  call as \<open>n\<close>.
\<close>

definition start_run :: "env \<Rightarrow> string \<Rightarrow> coords \<Rightarrow> string \<Rightarrow> 'a net \<Rightarrow> state \<Rightarrow> state" where
  "start_run e now c addr n st =
     (case startTracking st of
        (st1, requested) \<Rightarrow>
          if requested then
            (case startTracking_address e c addr n (startTracking_position c st1) of
               (st2, locationData, result) \<Rightarrow>
                 startTracking_result e now c addr locationData result st2)
          else st1)"

text \<open>
  The coordinate ranges of the specification: a finite latitude in [-90, 90] and a finite
  longitude in [-180, 180]. The three texts are the validation errors of the form, the
  \<open>InvalidCoordinate\<close> of the specification.
\<close>

definition in_range :: "jsnum \<Rightarrow> real \<Rightarrow> real \<Rightarrow> bool" where
  "in_range x lo hi = (case x of Num v \<Rightarrow> lo \<le> v \<and> v \<le> hi | _ \<Rightarrow> False)"

definition valid_coordinates :: "jsnum \<Rightarrow> jsnum \<Rightarrow> bool" where
  "valid_coordinates lat lng = (in_range lat (- 90) 90 \<and> in_range lng (- 180) 180)"

definition invalid_messages :: "string list" where
  "invalid_messages =
     [''Please enter valid latitude and longitude values'',
      ''Latitude must be between -90 and 90'',
      ''Longitude must be between -180 and 180'']"

section \<open>Concrete inputs\<close>

text \<open>A request object, and a server that answers it after 120 ms.\<close>

definition fix0 :: UpdateLocationRequest where
  "fix0 = \<lparr>req_latitude = Num 22.5726, req_longitude = Num 88.3639, req_accuracy = Some (Num 15),
     req_altitude = None, req_heading = None, req_speed = None, req_address = Some ''Kolkata'',
     req_sessionId = None, req_deviceInfo = None\<rparr>"

definition reply0 :: "unit net" where
  "reply0 = Reply 120 \<lparr>ok = True,
     json = JsonValue \<lparr>j_message = Some ''Location updated'', j_errors = None,
                       j_data = None, j_self = ()\<rparr>\<rparr>"

text \<open>
  A logged-in student \<open>u1\<close>, and the state after the map and the socket are set up:
  nothing tracked, nothing shown.
\<close>

definition env0 :: env where
  "env0 = \<lparr>userData = Some \<lparr>ud_id = Some ''u1'', ud_studentId = Some ''s1'', ud_role = Some ''Student''\<rparr>,
           nav_platform = ''Linux x86_64'', nav_userAgent = ''Mozilla/5.0''\<rparr>"

definition st0 :: state where
  "st0 = \<lparr>currentLocation = None, isTracking = False, nearbyLocations = [], watchId = None,
          searchRadius = Num 1000, locationAddress = [], isRequestingPermission = False,
          manualLatitude = [], manualLongitude = [], isLoadingManualLocation = False,
          markersRef = Map.empty,
          mapInstanceRef = Some \<lparr>center_latitude = Num 22.5726, center_longitude = Num 88.3639, zoom = 13\<rparr>,
          socketRef = Some \<lparr>connected = True, sid = Some ''sock1''\<rparr>,
          leaflet = True, geolocation = True, watches = [], next_watch = 0,
          localStorage = Stored (Some ''t0k''),
          fetched = [], emitted = [], toasts = [], console = []\<rparr>"

text \<open>
  Events of the push channel: a peer with an accuracy of 1500 m (flat shape), the user
  with a latitude of 0 (flat shape), the user with no coordinates at all, the user with an
  accuracy of 1500 m (nested shape).
\<close>

definition peer_event :: update_event where
  "peer_event = \<lparr>ev_userId = Some ''peer7'', ev_userType = Some ''Student'', ev_location = None,
      ev_latitude = Some (Num 12.9), ev_longitude = Some (Num 77.6), ev_accuracy = Some (Num 1500),
      ev_address = None, ev_timestamp = None\<rparr>"

definition zero_lat_event :: update_event where
  "zero_lat_event = \<lparr>ev_userId = Some ''u1'', ev_userType = Some ''Student'', ev_location = None,
      ev_latitude = Some (Num 0), ev_longitude = Some (Num 77.6), ev_accuracy = Some (Num 15),
      ev_address = None, ev_timestamp = None\<rparr>"



text \<open>
  Two fixes of the geolocation source.
\<close>

definition coords1 :: coords where
  "coords1 = \<lparr>c_latitude = Num 22.5726, c_longitude = Num 88.3639, c_accuracy = Num 15,
     c_altitude = None, c_heading = None, c_speed = Some (Num 0)\<rparr>"

definition coords2 :: coords where
  "coords2 = \<lparr>c_latitude = Num 22.58, c_longitude = Num 88.37, c_accuracy = Num 20,
     c_altitude = None, c_heading = None, c_speed = None\<rparr>"

text \<open>
  A session in which tracking is active: one watch, the first fix stored and pinned.
\<close>

definition marker1 :: marker where
  "marker1 = \<lparr>mk_latitude = Num 22.5726, mk_longitude = Num 88.3639, mk_current = True,
     mk_title = ''Your Exact Location'', mk_address = ''Kolkata'', mk_accuracy = Some (Num 15),
     mk_open = True\<rparr>"

definition st_active :: state where
  "st_active = st0\<lparr>isTracking := True, watchId := Some 0, watches := [0], next_watch := 1,
      locationAddress := ''Kolkata'', markersRef := [''u1'' \<mapsto> marker1],
      mapInstanceRef := Some \<lparr>center_latitude = Num 22.5726, center_longitude = Num 88.3639,
                                 zoom = 17\<rparr>,
      currentLocation := Some (self_location env0 ''2024-05-01T10:00:00.000Z''
                                 (Num 22.5726) (Num 88.3639) (Some (Num 15)) ''Kolkata'')\<rparr>"



definition slow_reply :: "unit net" where
  "slow_reply = Reply 29000 \<lparr>ok = True,
     json = JsonValue \<lparr>j_message = Some ''Location updated'', j_errors = None,
                       j_data = None, j_self = ()\<rparr>\<rparr>"

definition quick_reply :: "unit net" where
  "quick_reply = Reply 80 \<lparr>ok = True,
     json = JsonValue \<lparr>j_message = Some ''Location tracking stopped'', j_errors = None,
                       j_data = None, j_self = ()\<rparr>\<rparr>"

definition nearby_reply :: "NearbyLocationsResponse net" where
  "nearby_reply = Reply 150 \<lparr>ok = True,
     json = JsonValue \<lparr>j_message = None, j_errors = None,
              j_data = Some \<lparr>nb_count = 0, locations = []\<rparr>,
              j_self = \<lparr>nb_count = 0, locations = []\<rparr>\<rparr>\<rparr>"




text \<open>
  Tracking is started from the button and runs; the watch reports a timeout, which its
  error callback handles; the button, showing Start again, is clicked and the second
  start runs to its end. \<^verbatim>\<open>stopTracking\<close> is never called.
\<close>

definition after_first_start :: state where
  "after_first_start =
     start_run env0 ''2024-05-01T10:00:00.000Z'' coords1 ''Kolkata'' slow_reply st0"

definition after_watch_error :: state where
  "after_watch_error = watch_error TIMEOUT after_first_start"

definition restarted :: state where
  "restarted =
     start_run env0 ''2024-05-01T10:00:40.000Z'' coords2 ''Salt Lake'' slow_reply
       after_watch_error"

text \<open>
  The manual coordinate form: \<open>parse0\<close> reads the strings used here as
  \<^verbatim>\<open>parseFloat\<close> does, and anything else as NaN.
\<close>

definition parse0 :: "string \<Rightarrow> jsnum" where
  "parse0 s =
     (if s = ''91'' then Num 91
      else if s = ''90'' then Num 90
      else if s = ''-180'' then Num (- 180)
      else if s = ''88.3639'' then Num 88.3639
      else NaN)"

definition form_out_of_range :: state where
  "form_out_of_range = st0\<lparr>manualLatitude := ''91'', manualLongitude := ''88.3639''\<rparr>"

definition form_on_boundary :: state where
  "form_on_boundary = st0\<lparr>manualLatitude := ''90'', manualLongitude := ''-180''\<rparr>"

section \<open>The API client never throws\<close>

lemma handleResponse_returns: "\<exists>r. handleResponse resp = Inr r"
  by (simp add: handleResponse_def split: sum.splits)

lemma handleResponse_parse_failure:
  "(case json resp of JsonValue d \<Rightarrow> False | _ \<Rightarrow> True) \<Longrightarrow>
   handleResponse resp = Inr \<lparr>success = False, message = ''Failed to parse server response'', data = None, errors = Some []\<rparr>"
  by (simp add: handleResponse_def handleResponse_try_def split: parsed.splits)

lemma handleNetworkError_fails: "\<not> success (handleNetworkError e) \<and> message (handleNetworkError e) \<noteq> []"
  by (simp add: handleNetworkError_def split: thrown.splits)

lemma handleNetworkError_timeout:
  "message (handleNetworkError timeout_error) = ''Request timeout. Please check your connection and try again.''"
  unfolding handleNetworkError_def timeout_error_def by simp

lemma fetchWithTimeout_timed_out:
  "timed_out n \<Longrightarrow> snd (fetchWithTimeout u q \<lparr>opt_method = m, opt_headers = hs, opt_body = b, opt_timeout = None\<rparr> n) = Inl timeout_error"
  by (simp add: fetchWithTimeout_def timed_out_def rethrow_def Let_def split: net.splits)

lemma fetchWithTimeout_calls:
  "fst (fetchWithTimeout u q \<lparr>opt_method = m, opt_headers = hs, opt_body = b, opt_timeout = None\<rparr> n)
     = [\<lparr>url = u, query = q, fmethod = m, fheaders = hs, fbody = b, abort_after = Some REQUEST_TIMEOUT\<rparr>]"
  by (simp add: fetchWithTimeout_def Let_def)

lemma fetchWithTimeout_fails:
  "request_fails n \<Longrightarrow>
   (case snd (fetchWithTimeout u q \<lparr>opt_method = m, opt_headers = hs, opt_body = b, opt_timeout = None\<rparr> n) of
      Inl e \<Rightarrow> True | Inr resp \<Rightarrow> (case json resp of JsonValue d \<Rightarrow> False | _ \<Rightarrow> True))"
  by (auto simp: fetchWithTimeout_def request_fails_def Let_def split: net.splits)

lemma recoverable_fetch:
  assumes "isDemoMode ls = Inr False"
  shows "recoverable ls n (case fetch_and_handle u q m b ls n of (calls, body) \<Rightarrow> (calls, catch_network body))"
proof -
  from assms obtain t where ls: "ls = Stored t"
    by (cases ls) (auto simp: isDemoMode_def getAuthToken_def)
  have "\<exists>hs. buildHeaders ls True ''application/json'' = Inr hs"
    unfolding ls by (cases t) (simp_all add: buildHeaders_def getAuthToken_def Let_def)
  then obtain hs where hs: "buildHeaders ls True ''application/json'' = Inr hs"
    by blast
  let ?o = "\<lparr>opt_method = m, opt_headers = hs, opt_body = b, opt_timeout = None\<rparr>"
  let ?f = "fetchWithTimeout u q ?o n"
  have calls: "fst ?f = [\<lparr>url = u, query = q, fmethod = m, fheaders = hs, fbody = b, abort_after = Some REQUEST_TIMEOUT\<rparr>]"
    by (rule fetchWithTimeout_calls)
  show ?thesis
  proof (cases "snd ?f")
    case (Inl e)
    have out: "(case fetch_and_handle u q m b ls n of (calls, body) \<Rightarrow> (calls, catch_network body))
                 = (fst ?f, Inr (handleNetworkError e))"
      using Inl hs by (cases ?f) (simp add: fetch_and_handle_def catch_network_def)
    have "timed_out n \<Longrightarrow> e = timeout_error"
      using fetchWithTimeout_timed_out[of n u q m hs b] Inl by simp
    then show ?thesis
      unfolding out recoverable_def
      using handleNetworkError_fails[of e] handleNetworkError_timeout calls by auto
  next
    case (Inr resp)
    obtain r where r: "handleResponse resp = Inr r"
      using handleResponse_returns by blast
    have out: "(case fetch_and_handle u q m b ls n of (calls, body) \<Rightarrow> (calls, catch_network body))
                 = (fst ?f, Inr r)"
      using Inr hs r by (cases ?f) (simp add: fetch_and_handle_def catch_network_def)
    have nt: "\<not> timed_out n"
      using fetchWithTimeout_timed_out[of n u q m hs b] Inr by auto
    have "request_fails n \<Longrightarrow> \<not> success r \<and> message r \<noteq> []"
      using fetchWithTimeout_fails[of n u q m hs b] Inr handleResponse_parse_failure[of resp] r
      by auto
    then show ?thesis
      unfolding out recoverable_def using nt calls by auto
  qed
qed

lemma recoverable_local:
  "isDemoMode ls \<noteq> Inr False \<Longrightarrow> recoverable ls n ([], Inr r)"
  by (simp add: recoverable_def)

lemma recoverable_updateLocation: "recoverable ls n (updateLocation ls d n)"
proof (cases "isDemoMode ls = Inr False")
  case True
  then show ?thesis
    using recoverable_fetch[OF True]
    by (simp add: updateLocation_def updateLocation_try_def)
next
  case False
  then show ?thesis
    using recoverable_local[OF False]
    by (auto simp: updateLocation_def updateLocation_try_def catch_network_def split: sum.splits)
qed


lemma recoverable_getCurrentLocation: "recoverable ls n (getCurrentLocation ls n)"
proof (cases "isDemoMode ls = Inr False")
  case True
  then show ?thesis
    using recoverable_fetch[OF True]
    by (simp add: getCurrentLocation_def getCurrentLocation_try_def)
next
  case False
  then show ?thesis
    using recoverable_local[OF False]
    by (auto simp: getCurrentLocation_def getCurrentLocation_try_def catch_network_def
             split: sum.splits)
qed

lemma recoverable_getLocationHistory:
  "recoverable ls n (getLocationHistory ls page limit startDate endDate n)"
proof (cases "isDemoMode ls = Inr False")
  case True
  then show ?thesis
    using recoverable_fetch[OF True]
    by (simp add: getLocationHistory_def getLocationHistory_try_def)
next
  case False
  then show ?thesis
    using recoverable_local[OF False]
    by (auto simp: getLocationHistory_def getLocationHistory_try_def catch_network_def
             split: sum.splits)
qed

lemma recoverable_getNearbyLocations:
  "recoverable ls n (getNearbyLocations ls lat lng radius utype excludeSelf n)"
proof (cases "isDemoMode ls = Inr False")
  case True
  then show ?thesis
    using recoverable_fetch[OF True]
    by (simp add: getNearbyLocations_def getNearbyLocations_try_def)
next
  case False
  then show ?thesis
    using recoverable_local[OF False]
    by (auto simp: getNearbyLocations_def getNearbyLocations_try_def catch_network_def
             split: sum.splits)
qed

lemma recoverable_stopLocationTracking: "recoverable ls n (stopLocationTracking ls n)"
proof (cases "isDemoMode ls = Inr False")
  case True
  then show ?thesis
    using recoverable_fetch[OF True]
    by (simp add: stopLocationTracking_def stopLocationTracking_try_def)
next
  case False
  then show ?thesis
    using recoverable_local[OF False]
    by (auto simp: stopLocationTracking_def stopLocationTracking_try_def catch_network_def
             split: sum.splits)
qed

text \<open>
  Claim C8. Every REST location call (update, current, history, nearby, stop) arms the
  fixed request timeout on the \<^verbatim>\<open>fetch\<close> it makes, and its promise always resolves with
  a result object: when the request times out, the connection fails or the answer cannot
  be parsed, the result is \<^verbatim>\<open>success: false\<close> with a message (the timeout message on a
  timeout). No operation of \<^verbatim>\<open>locationApi\<close> rejects, whatever the storage and the
  network do.
\<close>

theorem locationApi_never_throws:
  "recoverable ls n (updateLocation ls locationData n) \<and>
   recoverable ls n (getCurrentLocation ls n) \<and>
   recoverable ls n (getLocationHistory ls page limit startDate endDate n) \<and>
   recoverable ls n (getNearbyLocations ls lat lng radius utype excludeSelf n) \<and>
   recoverable ls n (stopLocationTracking ls n)"
  using recoverable_updateLocation recoverable_getCurrentLocation
    recoverable_getLocationHistory recoverable_getNearbyLocations
    recoverable_stopLocationTracking
  by blast

text \<open>
  The theorem at a token \<open>t0k\<close> and a server that never answers: one POST with the
  30000 ms timer, resolved with the timeout result.
\<close>

theorem locationApi_never_throws_witness:
  "isDemoMode (Stored (Some ''t0k'')) = Inr False \<and> timed_out (Silent :: unit net) \<and>
   request_fails (Silent :: unit net) \<and>
   recoverable (Stored (Some ''t0k'')) (Silent :: unit net) (updateLocation (Stored (Some ''t0k'')) fix0 Silent) \<and>
   updateLocation (Stored (Some ''t0k'')) fix0 (Silent :: unit net) =
     ([\<lparr>url = API_BASE_URL @ LOCATION_UPDATE, query = [], fmethod = ''POST'',
        fheaders = [(''Content-Type'', ''application/json''), (''Authorization'', ''Bearer t0k'')],
        fbody = Some fix0, abort_after = Some 30000\<rparr>],
      Inr \<lparr>success = False,
           message = ''Request timeout. Please check your connection and try again.'',
           data = None, errors = Some []\<rparr>)"
proof -
  have a: "isDemoMode (Stored (Some ''t0k'')) = Inr False"
    by (simp add: isDemoMode_def getAuthToken_def DEMO_TOKEN_def)
  have b: "timed_out (Silent :: unit net)" "request_fails (Silent :: unit net)"
    by (simp_all add: timed_out_def request_fails_def)
  have c: "recoverable (Stored (Some ''t0k'')) (Silent :: unit net)
             (updateLocation (Stored (Some ''t0k'')) fix0 Silent)"
    using locationApi_never_throws[of "Stored (Some ''t0k'')" "Silent :: unit net" fix0] by simp
  have d: "updateLocation (Stored (Some ''t0k'')) fix0 (Silent :: unit net) =
     ([\<lparr>url = API_BASE_URL @ LOCATION_UPDATE, query = [], fmethod = ''POST'',
        fheaders = [(''Content-Type'', ''application/json''), (''Authorization'', ''Bearer t0k'')],
        fbody = Some fix0, abort_after = Some 30000\<rparr>],
      Inr \<lparr>success = False,
           message = ''Request timeout. Please check your connection and try again.'',
           data = None, errors = Some []\<rparr>)"
    by (simp add: updateLocation_def updateLocation_try_def a fetch_and_handle_def
          buildHeaders_def getAuthToken_def DEMO_TOKEN_def fetchWithTimeout_def
          REQUEST_TIMEOUT_def rethrow_def timeout_error_def catch_network_def
          handleNetworkError_def)
  from a b c d show ?thesis by simp
qed

section \<open>Demo mode and the bearer token\<close>

lemma isDemoMode_Stored: "isDemoMode (Stored token) = Inr (demo_token token)"
  by (cases token) (auto simp: isDemoMode_def getAuthToken_def demo_token_def)

lemma buildHeaders_demo:
  "demo_token token \<Longrightarrow>
   buildHeaders (Stored token) True ''application/json'' = Inr [(''Content-Type'', ''application/json'')]"
  by (auto simp: buildHeaders_def getAuthToken_def demo_token_def)

lemma buildHeaders_bearer:
  "\<not> demo_token (Some t) \<Longrightarrow>
   buildHeaders (Stored (Some t)) True ''application/json''
     = Inr [(''Content-Type'', ''application/json''), (''Authorization'', ''Bearer '' @ t)]"
  by (auto simp: buildHeaders_def getAuthToken_def demo_token_def)

lemma fetch_and_handle_bearer:
  "\<not> demo_token (Some t) \<Longrightarrow>
   carries_bearer t (case fetch_and_handle u q m b (Stored (Some t)) n of
                       (calls, body) \<Rightarrow> (calls, catch_network body))"
  by (simp add: fetch_and_handle_def buildHeaders_bearer fetchWithTimeout_def Let_def
        carries_bearer_def split: net.splits)

text \<open>
  Claim C9, as amended. For every REST location call: when the stored token is absent,
  empty or the demo sentinel, \<^verbatim>\<open>buildHeaders\<close> leaves the Authorization header out, no
  request is made and the demo-mode result is returned locally; when the token is present,
  not empty and not the sentinel, the call makes one request, which carries
  \<^verbatim>\<open>Authorization: Bearer <token>\<close>.
\<close>

theorem demo_or_bearer:
  "(demo_token token \<longrightarrow>
      buildHeaders (Stored token) True ''application/json''
        = Inr [(''Content-Type'', ''application/json'')] \<and>
      updateLocation (Stored token) locationData n
        = ([], Inr (demo_result False ''Location tracking not available in demo mode'')) \<and>
      getCurrentLocation (Stored token) n
        = ([], Inr (demo_result False ''Location not available in demo mode'')) \<and>
      getLocationHistory (Stored token) page limit startDate endDate n
        = ([], Inr (demo_result False ''Location history not available in demo mode'')) \<and>
      getNearbyLocations (Stored token) lat lng radius utype excludeSelf n
        = ([], Inr (demo_result False ''Nearby locations not available in demo mode'')) \<and>
      stopLocationTracking (Stored token) n
        = ([], Inr (demo_result True ''Location tracking stopped (demo mode)''))) \<and>
   (token = Some t \<and> \<not> demo_token token \<longrightarrow>
      carries_bearer t (updateLocation (Stored token) locationData n) \<and>
      carries_bearer t (getCurrentLocation (Stored token) n) \<and>
      carries_bearer t (getLocationHistory (Stored token) page limit startDate endDate n) \<and>
      carries_bearer t (getNearbyLocations (Stored token) lat lng radius utype excludeSelf n) \<and>
      carries_bearer t (stopLocationTracking (Stored token) n))"
proof (intro conjI impI)
  assume d: "demo_token token"
  show "buildHeaders (Stored token) True ''application/json''
        = Inr [(''Content-Type'', ''application/json'')]"
    using d by (rule buildHeaders_demo)
  show "updateLocation (Stored token) locationData n
        = ([], Inr (demo_result False ''Location tracking not available in demo mode''))"
    using d by (simp add: updateLocation_def updateLocation_try_def isDemoMode_Stored catch_network_def)
  show "getCurrentLocation (Stored token) n
        = ([], Inr (demo_result False ''Location not available in demo mode''))"
    using d by (simp add: getCurrentLocation_def getCurrentLocation_try_def isDemoMode_Stored catch_network_def)
  show "getLocationHistory (Stored token) page limit startDate endDate n
        = ([], Inr (demo_result False ''Location history not available in demo mode''))"
    using d by (simp add: getLocationHistory_def getLocationHistory_try_def isDemoMode_Stored catch_network_def)
  show "getNearbyLocations (Stored token) lat lng radius utype excludeSelf n
        = ([], Inr (demo_result False ''Nearby locations not available in demo mode''))"
    using d by (simp add: getNearbyLocations_def getNearbyLocations_try_def isDemoMode_Stored catch_network_def)
  show "stopLocationTracking (Stored token) n
        = ([], Inr (demo_result True ''Location tracking stopped (demo mode)''))"
    using d by (simp add: stopLocationTracking_def stopLocationTracking_try_def isDemoMode_Stored catch_network_def)
next
  assume a: "token = Some t \<and> \<not> demo_token token"
  then have nd: "\<not> demo_token (Some t)" and tk: "token = Some t" by auto
  show "carries_bearer t (updateLocation (Stored token) locationData n)"
    using fetch_and_handle_bearer[OF nd] nd
    by (simp add: tk updateLocation_def updateLocation_try_def isDemoMode_Stored)
  show "carries_bearer t (getCurrentLocation (Stored token) n)"
    using fetch_and_handle_bearer[OF nd] nd
    by (simp add: tk getCurrentLocation_def getCurrentLocation_try_def isDemoMode_Stored)
  show "carries_bearer t (getLocationHistory (Stored token) page limit startDate endDate n)"
    using fetch_and_handle_bearer[OF nd] nd
    by (simp add: tk getLocationHistory_def getLocationHistory_try_def isDemoMode_Stored)
  show "carries_bearer t (getNearbyLocations (Stored token) lat lng radius utype excludeSelf n)"
    using fetch_and_handle_bearer[OF nd] nd
    by (simp add: tk getNearbyLocations_def getNearbyLocations_try_def isDemoMode_Stored)
  show "carries_bearer t (stopLocationTracking (Stored token) n)"
    using fetch_and_handle_bearer[OF nd] nd
    by (simp add: tk stopLocationTracking_def stopLocationTracking_try_def isDemoMode_Stored)
qed

text \<open>The theorem at the sentinel and at the token \<open>t0k\<close>.\<close>

theorem demo_or_bearer_witness:
  "demo_token (Some ''demo-token'') \<and>
   updateLocation (Stored (Some ''demo-token'')) fix0 reply0
     = ([], Inr (demo_result False ''Location tracking not available in demo mode'')) \<and>
   \<not> demo_token (Some ''t0k'') \<and>
   carries_bearer ''t0k'' (updateLocation (Stored (Some ''t0k'')) fix0 reply0) \<and>
   updateLocation (Stored (Some ''t0k'')) fix0 reply0 =
     ([\<lparr>url = API_BASE_URL @ LOCATION_UPDATE, query = [], fmethod = ''POST'',
        fheaders = [(''Content-Type'', ''application/json''), (''Authorization'', ''Bearer t0k'')],
        fbody = Some fix0, abort_after = Some 30000\<rparr>],
      Inr \<lparr>success = True, message = ''Location updated'', data = Some (), errors = None\<rparr>)"
proof -
  have a: "demo_token (Some ''demo-token'')" and b: "\<not> demo_token (Some ''t0k'')"
    by (simp_all add: demo_token_def DEMO_TOKEN_def)
  have c: "updateLocation (Stored (Some ''demo-token'')) fix0 reply0
     = ([], Inr (demo_result False ''Location tracking not available in demo mode''))"
    using demo_or_bearer[of "Some ''demo-token''" fix0 reply0] a by simp
  have d: "carries_bearer ''t0k'' (updateLocation (Stored (Some ''t0k'')) fix0 reply0)"
    using demo_or_bearer[of "Some ''t0k''" fix0 reply0 _ _ _ _ _ _ _ _ _ "''t0k''"] b by simp
  have e: "updateLocation (Stored (Some ''t0k'')) fix0 reply0 =
     ([\<lparr>url = API_BASE_URL @ LOCATION_UPDATE, query = [], fmethod = ''POST'',
        fheaders = [(''Content-Type'', ''application/json''), (''Authorization'', ''Bearer t0k'')],
        fbody = Some fix0, abort_after = Some 30000\<rparr>],
      Inr \<lparr>success = True, message = ''Location updated'', data = Some (), errors = None\<rparr>)"
    using b
    by (simp add: updateLocation_def updateLocation_try_def isDemoMode_Stored fetch_and_handle_def
          buildHeaders_bearer fetchWithTimeout_def REQUEST_TIMEOUT_def reply0_def
          handleResponse_def handleResponse_try_def str_or_lit_def catch_network_def)
  from a b c d e show ?thesis by simp
qed

text \<open>
  Claim C9 as stated fails for a missing token: it is not the sentinel, yet the call makes
  no request, so nothing carries an Authorization header.
\<close>

theorem demo_or_bearer_counterexample:
  "(None :: string option) \<noteq> Some DEMO_TOKEN \<and>
   updateLocation (Stored None) fix0 reply0
     = ([], Inr (demo_result False ''Location tracking not available in demo mode'')) \<and>
   \<not> list_ex (\<lambda>c. ''Authorization'' \<in> fst ` set (fheaders c))
        (fst (updateLocation (Stored None) fix0 reply0))"
  by (simp add: updateLocation_def updateLocation_try_def isDemoMode_def getAuthToken_def
        catch_network_def)

section \<open>Facts about the concrete inputs and the small steps\<close>

lemma env0_ids: "user_id env0 = Some ''u1''" "user_studentId env0 = Some ''s1''"
  "user_role env0 = Some ''Student''" "self_id env0 = ''u1''"
  by (simp_all add: env0_def user_id_def user_studentId_def user_role_def self_id_def str_or_lit_def)

lemma st0_fields:
  "geolocation st0" "watches st0 = []" "next_watch st0 = 0" "\<not> isTracking st0"
  "currentLocation st0 = None" "toasts st0 = []" "fetched st0 = []"
  by (simp_all add: st0_def)

lemma st_active_fields:
  "localStorage st_active = Stored (Some ''t0k'')"
  "map_ready st_active" "markersRef st_active = [''u1'' \<mapsto> marker1]"
  "socketRef st_active = Some \<lparr>connected = True, sid = Some ''sock1''\<rparr>"
  "fetched st_active = []" "emitted st_active = []" "toasts st_active = []"
  "isTracking st_active" "watchId st_active = Some 0" "watches st_active = [0]"
  "currentLocation st_active = Some \<lparr>ld_id = ''u1'', userId = ''u1'', userType = ''Student'',
      latitude = Num 22.5726, longitude = Num 88.3639, accuracy = Some (Num 15),
      address = Some ''Kolkata'', isActive = True, lastUpdated = ''2024-05-01T10:00:00.000Z''\<rparr>"
  by (simp_all add: st_active_def st0_def map_ready_def self_location_def env0_ids str_or_lit_def)

lemma emit_if_connected_eq:
  "emit_if_connected ev st
     = st\<lparr>emitted := emitted st @ (if socket_connected st then [ev] else [])\<rparr>"
  by (simp add: emit_if_connected_def socket_connected_def split: option.splits)

lemma socket_connected_upd:
  "socket_connected (st\<lparr>currentLocation := x\<rparr>) = socket_connected st"
  "socket_connected (st\<lparr>emitted := y\<rparr>) = socket_connected st"
  by (simp_all add: socket_connected_def)



section \<open>The socket handler: accuracy gate and position test\<close>

lemma low_accuracy_fails_gate:
  "js_gt a (Num 1000) \<Longrightarrow> \<not> passes_gate False (Some a)"
  by (cases a) (auto simp: passes_gate_def js_gt_def)

lemma event_location_accuracy:
  "event_location d = Some loc \<Longrightarrow> loc_accuracy loc = event_accuracy d"
  by (auto simp: event_location_def event_accuracy_def split: option.splits if_splits)

text \<open>
  Claim C1. A \<^verbatim>\<open>location:update\<close> event whose subject is not the current user and
  whose accuracy is present and worse than 1000 meters is discarded: apart from two console
  lines the state is what it was, so the markers (the displayed positions) are unchanged
  and no entry is created for a peer that had none.
\<close>

theorem peer_low_accuracy_discarded:
  assumes "\<not> event_from_self e d" and "event_accuracy d = Some a" and "js_gt a (Num 1000)"
  shows "(on_location_update e r now d st)\<lparr>console := console st\<rparr> = st \<and>
         markersRef (on_location_update e r now d st) = markersRef st \<and>
         currentLocation (on_location_update e r now d st) = currentLocation st \<and>
         toasts (on_location_update e r now d st) = toasts st"
proof (cases "event_location d")
  case None
  then show ?thesis
    by (simp add: on_location_update_def console_line_def)
next
  case (Some loc)
  have "loc_accuracy loc = Some a"
    using event_location_accuracy[OF Some] assms(2) by simp
  then have "\<not> passes_gate (event_from_self e d) (loc_accuracy loc)"
    using low_accuracy_fails_gate[OF assms(3)] assms(1) by simp
  then show ?thesis
    using Some by (simp add: on_location_update_def console_line_def Let_def)
qed

text \<open>
  The theorem at a peer reporting \<open>{12.9, 77.6, accuracy 1500}\<close> with no earlier entry:
  no marker is created.
\<close>

theorem peer_low_accuracy_discarded_witness:
  "\<not> event_from_self env0 peer_event \<and> event_accuracy peer_event = Some (Num 1500) \<and>
   js_gt (Num 1500) (Num 1000) \<and>
   markersRef (on_location_update env0 (render_of st0) ''2024-05-01T10:00:00.000Z'' peer_event st0) ''peer7'' = None \<and>
   on_location_update env0 (render_of st0) ''2024-05-01T10:00:00.000Z'' peer_event st0
     = st0\<lparr>console := [''Location update received:'', ''Location accuracy too low, ignoring update:'']\<rparr>"
proof -
  have a: "\<not> event_from_self env0 peer_event"
    by (simp add: event_from_self_def env0_def peer_event_def user_id_def user_studentId_def)
  have b: "event_accuracy peer_event = Some (Num 1500)"
    by (simp add: event_accuracy_def peer_event_def)
  have c: "js_gt (Num 1500) (Num 1000)"
    by (simp add: js_gt_def)
  note t = peer_low_accuracy_discarded[where r = "render_of st0" and st = st0
      and now = "''2024-05-01T10:00:00.000Z''", OF a b c]
  have d: "markersRef (on_location_update env0 (render_of st0) ''2024-05-01T10:00:00.000Z'' peer_event st0) ''peer7'' = None"
    using t by (simp add: st0_def)
  have e: "on_location_update env0 (render_of st0) ''2024-05-01T10:00:00.000Z'' peer_event st0
     = st0\<lparr>console := [''Location update received:'', ''Location accuracy too low, ignoring update:'']\<rparr>"
    by (simp add: on_location_update_def event_location_def peer_event_def passes_gate_def
          event_from_self_def env0_def user_id_def user_studentId_def console_line_def st0_def)
  from a b c d e show ?thesis by simp
qed

text \<open>
  Claim C10. A flat \<^verbatim>\<open>location:update\<close> event (no nested location object) whose
  latitude or longitude is 0 yields no position, because presence is tested by truthiness:
  the handler logs the event and changes nothing else, for every subject and accuracy.
\<close>

theorem flat_zero_coordinate_ignored:
  assumes "ev_location d = None"
      and "ev_latitude d = Some (Num 0) \<or> ev_longitude d = Some (Num 0)"
  shows "event_location d = None \<and>
         on_location_update e r now d st
           = st\<lparr>console := console st @ [''Location update received:'']\<rparr>"
proof -
  have "event_location d = None"
    using assms by (auto simp: event_location_def split: option.splits)
  then show ?thesis
    by (simp add: on_location_update_def console_line_def)
qed

text \<open>
  The theorem at an event of the user on the equator.
\<close>

theorem flat_zero_coordinate_ignored_witness:
  "ev_location zero_lat_event = None \<and> ev_latitude zero_lat_event = Some (Num 0) \<and>
   on_location_update env0 (render_of st0) ''2024-05-01T10:00:00.000Z'' zero_lat_event st0
     = st0\<lparr>console := [''Location update received:'']\<rparr> \<and>
   markersRef (on_location_update env0 (render_of st0) ''2024-05-01T10:00:00.000Z'' zero_lat_event st0) ''u1'' = None"
proof -
  have a: "ev_location zero_lat_event = None" and b: "ev_latitude zero_lat_event = Some (Num 0)"
    by (simp_all add: zero_lat_event_def)
  have c: "on_location_update env0 (render_of st0) ''2024-05-01T10:00:00.000Z'' zero_lat_event st0
     = st0\<lparr>console := console st0 @ [''Location update received:'']\<rparr>"
    using flat_zero_coordinate_ignored[OF a disjI1[OF b]] by simp
  have d: "console st0 = []" "markersRef st0 ''u1'' = None"
    by (simp_all add: st0_def)
  from a b c d show ?thesis by simp
qed







section \<open>Stopping and late REST responses\<close>



lemma startTracking_result_fields:
  "currentLocation (startTracking_result e now c addr upd result st)
     = Some (self_location e now (c_latitude c) (c_longitude c) (Some (c_accuracy c)) addr)"
  "emitted (startTracking_result e now c addr upd result st)
     = emitted st @ (if socket_connected st then [LocationUpdate upd] else [])"
  "watches (startTracking_result e now c addr upd result st) = watches st @ [next_watch st]"
  "watchId (startTracking_result e now c addr upd result st) = Some (next_watch st)"
  "isTracking (startTracking_result e now c addr upd result st) = isTracking st"
  by (simp_all add: startTracking_result_def Let_def watchPosition_def showSuccess_def
        console_line_def emit_if_connected_eq socket_connected_upd
        split: sum.splits prod.splits)







section \<open>Order of the local update, the REST call and the push\<close>









section \<open>Starting again after a watch error\<close>

lemma startTracking_address_watches:
  "startTracking_address e c addr n st = (st1, upd, result) \<Longrightarrow>
   watches st1 = watches st \<and> next_watch st1 = next_watch st \<and> isTracking st1 = isTracking st"
  by (auto simp: startTracking_address_def Let_def split: prod.splits if_splits)

lemma start_run_watches:
  assumes "geolocation st"
  shows "watches (start_run e now c addr n st) = watches st @ [next_watch st] \<and>
         watchId (start_run e now c addr n st) = Some (next_watch st) \<and>
         isTracking (start_run e now c addr n st)"
proof -
  let ?st1 = "st\<lparr>isRequestingPermission := True\<rparr>"
  let ?st2 = "startTracking_position c ?st1"
  have s: "startTracking st = (?st1, True)"
    using assms by (simp add: startTracking_def)
  have p: "watches ?st2 = watches st" "next_watch ?st2 = next_watch st" "isTracking ?st2"
    by (simp_all add: startTracking_position_def getAddressFromCoordinates_def)
  obtain st3 upd result where a: "startTracking_address e c addr n ?st2 = (st3, upd, result)"
    by (cases "startTracking_address e c addr n ?st2") auto
  have r: "start_run e now c addr n st = startTracking_result e now c addr upd result st3"
    by (simp add: start_run_def s a)
  show ?thesis
    using startTracking_address_watches[OF a] p
    by (simp add: r startTracking_result_fields)
qed

lemma start_run_rest:
  assumes "geolocation st"
  shows "geolocation (start_run e now c addr n st) \<and>
         next_watch (start_run e now c addr n st) = Suc (next_watch st) \<and>
         \<not> isRequestingPermission (start_run e now c addr n st)"
proof -
  let ?st1 = "st\<lparr>isRequestingPermission := True\<rparr>"
  let ?st2 = "startTracking_position c ?st1"
  have s: "startTracking st = (?st1, True)"
    using assms by (simp add: startTracking_def)
  obtain st3 upd result where a: "startTracking_address e c addr n ?st2 = (st3, upd, result)"
    by (cases "startTracking_address e c addr n ?st2") auto
  have g: "geolocation st3 = geolocation ?st2 \<and> next_watch st3 = next_watch ?st2 \<and>
           isRequestingPermission st3 = isRequestingPermission ?st2"
    using a by (auto simp: startTracking_address_def Let_def split: prod.splits if_splits)
  have r: "start_run e now c addr n st = startTracking_result e now c addr upd result st3"
    by (simp add: start_run_def s a)
  show ?thesis
    using g assms
    by (simp add: r startTracking_result_def Let_def watchPosition_def showSuccess_def
          console_line_def emit_if_connected_eq startTracking_position_def
          getAddressFromCoordinates_def split: sum.splits)
qed

lemma watch_error_fields:
  "isTracking (watch_error code st) = False"
  "watches (watch_error code st) = watches st"
  "watchId (watch_error code st) = watchId st"
  "next_watch (watch_error code st) = next_watch st"
  "geolocation (watch_error code st) = geolocation st"
  "isRequestingPermission (watch_error code st) = isRequestingPermission st"
  by (simp_all add: watch_error_def showError_def console_line_def)

text \<open>
  Claim C4, on the inputs the component can receive. \<^verbatim>\<open>startTracking\<close> is called by
  the tracking button only, and only while \<^verbatim>\<open>isTracking\<close> is false. The error callback
  of the watch resets \<^verbatim>\<open>isTracking\<close> without clearing the watch, so after it the button
  calls \<^verbatim>\<open>startTracking\<close> a second time with no \<^verbatim>\<open>stopTracking\<close> in between: the
  second start opens a second watch handle beside the first and overwrites
  \<^verbatim>\<open>watchId\<close>. Two handles exist where the claim allows one.
\<close>

theorem second_watch_after_watch_error:
  "isTracking after_first_start \<and> watches after_first_start = [0] \<and>
   watchId after_first_start = Some 0 \<and>
   isTracking after_watch_error = False \<and> watches after_watch_error = [0] \<and>
   watchId after_watch_error = Some 0 \<and>
   tracking_button_click quick_reply after_watch_error
     = (fst (startTracking after_watch_error), Position) \<and>
   watches restarted = [0, 1] \<and> watchId restarted = Some 1 \<and>
   length (watches restarted) = 2"
proof -
  have a: "watches after_first_start = [0]" "watchId after_first_start = Some 0"
    "isTracking after_first_start"
    unfolding after_first_start_def
    using start_run_watches[OF st0_fields(1), of env0 "''2024-05-01T10:00:00.000Z''" coords1
        "''Kolkata''" slow_reply]
    by (simp_all add: st0_fields)
  have b: "geolocation after_first_start" "next_watch after_first_start = 1"
    "\<not> isRequestingPermission after_first_start"
    unfolding after_first_start_def
    using start_run_rest[OF st0_fields(1), of env0 "''2024-05-01T10:00:00.000Z''" coords1
        "''Kolkata''" slow_reply]
    by (simp_all add: st0_fields)
  have c: "isTracking after_watch_error = False" "watches after_watch_error = [0]"
    "watchId after_watch_error = Some 0" "next_watch after_watch_error = 1"
    "geolocation after_watch_error" "\<not> isRequestingPermission after_watch_error"
    by (simp_all add: after_watch_error_def watch_error_fields a b)
  have d: "tracking_button_click quick_reply after_watch_error
     = (fst (startTracking after_watch_error), Position)"
    using c by (simp add: tracking_button_click_def startTracking_def)
  have e: "watches restarted = [0, 1]" "watchId restarted = Some 1"
    unfolding restarted_def
    using start_run_watches[OF c(5), of env0 "''2024-05-01T10:00:40.000Z''" coords2
        "''Salt Lake''" slow_reply]
    by (simp_all add: c)
  from a c d e show ?thesis by simp
qed

section \<open>Manual coordinates\<close>

lemma in_range_code:
  "in_range x lo hi = (\<not> isNaN x \<and> \<not> js_lt x (Num lo) \<and> \<not> js_gt x (Num hi))"
  by (cases x) (auto simp: in_range_def js_gt_def)

text \<open>
  Claim C6. With a latitude outside [-90, 90] or a longitude outside [-180, 180] (or a
  value that is no number), the manual coordinate handler shows one of its validation
  errors and returns: no other part of the state changes and no request is made. A
  latitude out of range gives the latitude error, a longitude out of range (the latitude
  being in range) the longitude error. Valid coordinates pass to the address lookup, and
  the boundary values -90, 90, -180 and 180 are valid.
\<close>

theorem manual_coordinates_validated:
  "(\<not> valid_coordinates (parse (manualLatitude st)) (parse (manualLongitude st)) \<longrightarrow>
      (\<exists>m. List.member invalid_messages m \<and>
           getLocationFromCoordinates parse st
             = (st\<lparr>toasts := toasts st @ [ShowError m]\<rparr>, None))) \<and>
   (parse (manualLatitude st) = Num a \<and> parse (manualLongitude st) = Num b \<and>
    (a < - 90 \<or> 90 < a) \<longrightarrow>
      getLocationFromCoordinates parse st
        = (st\<lparr>toasts := toasts st @ [ShowError ''Latitude must be between -90 and 90'']\<rparr>, None)) \<and>
   (parse (manualLatitude st) = Num a \<and> parse (manualLongitude st) = Num b \<and>
    - 90 \<le> a \<and> a \<le> 90 \<and> (b < - 180 \<or> 180 < b) \<longrightarrow>
      getLocationFromCoordinates parse st
        = (st\<lparr>toasts := toasts st @ [ShowError ''Longitude must be between -180 and 180'']\<rparr>, None)) \<and>
   (valid_coordinates (parse (manualLatitude st)) (parse (manualLongitude st)) \<longrightarrow>
      getLocationFromCoordinates parse st
        = (st\<lparr>isLoadingManualLocation := True,
               fetched := fetched st @ [geocode_call (parse (manualLatitude st))
                                          (parse (manualLongitude st))]\<rparr>,
           Some (parse (manualLatitude st), parse (manualLongitude st)))) \<and>
   valid_coordinates (Num (- 90)) (Num (- 180)) \<and> valid_coordinates (Num 90) (Num 180) \<and>
   valid_coordinates (Num (- 90)) (Num 180) \<and> valid_coordinates (Num 90) (Num (- 180))"
proof (intro conjI impI)
  assume "\<not> valid_coordinates (parse (manualLatitude st)) (parse (manualLongitude st))"
  then show "\<exists>m. List.member invalid_messages m \<and>
           getLocationFromCoordinates parse st = (st\<lparr>toasts := toasts st @ [ShowError m]\<rparr>, None)"
    by (auto simp: valid_coordinates_def in_range_code getLocationFromCoordinates_def Let_def
          showError_def invalid_messages_def)
next
  assume "parse (manualLatitude st) = Num a \<and> parse (manualLongitude st) = Num b \<and>
    (a < - 90 \<or> 90 < a)"
  then show "getLocationFromCoordinates parse st
        = (st\<lparr>toasts := toasts st @ [ShowError ''Latitude must be between -90 and 90'']\<rparr>, None)"
    by (auto simp: getLocationFromCoordinates_def Let_def showError_def js_gt_def)
next
  assume "parse (manualLatitude st) = Num a \<and> parse (manualLongitude st) = Num b \<and>
    - 90 \<le> a \<and> a \<le> 90 \<and> (b < - 180 \<or> 180 < b)"
  then show "getLocationFromCoordinates parse st
        = (st\<lparr>toasts := toasts st @ [ShowError ''Longitude must be between -180 and 180'']\<rparr>, None)"
    by (auto simp: getLocationFromCoordinates_def Let_def showError_def js_gt_def)
next
  assume "valid_coordinates (parse (manualLatitude st)) (parse (manualLongitude st))"
  then show "getLocationFromCoordinates parse st
        = (st\<lparr>isLoadingManualLocation := True,
               fetched := fetched st @ [geocode_call (parse (manualLatitude st))
                                          (parse (manualLongitude st))]\<rparr>,
           Some (parse (manualLatitude st), parse (manualLongitude st)))"
    by (auto simp: valid_coordinates_def in_range_code getLocationFromCoordinates_def Let_def
          getAddressFromCoordinates_def)
qed (simp_all add: valid_coordinates_def in_range_def)

text \<open>
  The theorem at latitude 91, rejected, and at (90, -180), accepted.
\<close>

theorem manual_coordinates_validated_witness:
  "\<not> valid_coordinates (parse0 (manualLatitude form_out_of_range))
       (parse0 (manualLongitude form_out_of_range)) \<and>
   getLocationFromCoordinates parse0 form_out_of_range
     = (form_out_of_range\<lparr>toasts := [ShowError ''Latitude must be between -90 and 90'']\<rparr>, None) \<and>
   valid_coordinates (parse0 (manualLatitude form_on_boundary))
       (parse0 (manualLongitude form_on_boundary)) \<and>
   getLocationFromCoordinates parse0 form_on_boundary
     = (form_on_boundary\<lparr>isLoadingManualLocation := True,
          fetched := [geocode_call (Num 90) (Num (- 180))]\<rparr>,
        Some (Num 90, Num (- 180)))"
proof -
  have p: "parse0 (manualLatitude form_out_of_range) = Num 91"
    "parse0 (manualLongitude form_out_of_range) = Num 88.3639"
    "parse0 (manualLatitude form_on_boundary) = Num 90"
    "parse0 (manualLongitude form_on_boundary) = Num (- 180)"
    by (simp_all add: parse0_def form_out_of_range_def form_on_boundary_def)
  have f: "toasts form_out_of_range = []" "fetched form_on_boundary = []"
    by (simp_all add: form_out_of_range_def form_on_boundary_def st0_def)
  have a: "\<not> valid_coordinates (Num 91) (Num 88.3639)" and b: "valid_coordinates (Num 90) (Num (- 180))"
    by (simp_all add: valid_coordinates_def in_range_def)
  have c: "getLocationFromCoordinates parse0 form_out_of_range
     = (form_out_of_range\<lparr>toasts := [ShowError ''Latitude must be between -90 and 90'']\<rparr>, None)"
    using manual_coordinates_validated[of parse0 form_out_of_range 91 "88.3639"] p f by simp
  have d: "getLocationFromCoordinates parse0 form_on_boundary
     = (form_on_boundary\<lparr>isLoadingManualLocation := True,
          fetched := [geocode_call (Num 90) (Num (- 180))]\<rparr>,
        Some (Num 90, Num (- 180)))"
    using manual_coordinates_validated[of parse0 form_on_boundary 90 "- 180"] p f b by simp
  from a b c d p show ?thesis by simp
qed

section \<open>Searching nearby\<close>

text \<open>
  Claim C7. Without a current location \<^verbatim>\<open>searchNearby\<close> shows the error asking to
  start tracking (the \<open>NoBaselinePosition\<close> of the specification) and returns: it makes
  no request, awaits nothing and changes nothing else. A request is made, and a result
  awaited, only when a current location exists; the call then goes out with its
  coordinates. The peer list and the markers are never touched before the result.
\<close>

theorem search_needs_position:
  "(currentLocation st = None \<longrightarrow>
      searchNearby n st
        = (st\<lparr>toasts := toasts st @ [ShowError ''Please start location tracking first'']\<rparr>,
           None)) \<and>
   (fetched (fst (searchNearby n st)) \<noteq> fetched st \<longrightarrow> currentLocation st \<noteq> None) \<and>
   (snd (searchNearby n st) \<noteq> None \<longrightarrow> currentLocation st \<noteq> None) \<and>
   (currentLocation st = Some cur \<longrightarrow>
      searchNearby n st
        = (st\<lparr>fetched := fetched st @
                  fst (getNearbyLocations (localStorage st) (latitude cur) (longitude cur)
                         (searchRadius st) None True n)\<rparr>,
           Some (snd (getNearbyLocations (localStorage st) (latitude cur) (longitude cur)
                        (searchRadius st) None True n)))) \<and>
   nearbyLocations (fst (searchNearby n st)) = nearbyLocations st \<and>
   markersRef (fst (searchNearby n st)) = markersRef st"
  by (cases "currentLocation st")
     (auto simp: searchNearby_def showError_def split: prod.splits)

text \<open>
  The theorem before any fix, and in the active session.
\<close>

theorem search_needs_position_witness:
  "currentLocation st0 = None \<and>
   searchNearby nearby_reply st0
     = (st0\<lparr>toasts := [ShowError ''Please start location tracking first'']\<rparr>, None) \<and>
   fetched (fst (searchNearby nearby_reply st0)) = [] \<and>
   currentLocation st_active \<noteq> None \<and>
   fetched (fst (searchNearby nearby_reply st_active))
     = [\<lparr>url = API_BASE_URL @ LOCATION_NEARBY,
         query = [(''latitude'', QNum (Num 22.5726)), (''longitude'', QNum (Num 88.3639)),
                  (''radius'', QNum (Num 1000)), (''excludeSelf'', QBool True)],
         fmethod = ''GET'',
         fheaders = [(''Content-Type'', ''application/json''), (''Authorization'', ''Bearer t0k'')],
         fbody = None, abort_after = Some 30000\<rparr>]"
proof -
  have a: "currentLocation st0 = None" "toasts st0 = []" "fetched st0 = []"
    by (simp_all add: st0_def)
  have b: "searchNearby nearby_reply st0
     = (st0\<lparr>toasts := [ShowError ''Please start location tracking first'']\<rparr>, None)"
    using search_needs_position[of st0 nearby_reply] a by simp
  have c: "fetched (fst (searchNearby nearby_reply st0)) = []"
    by (simp add: b a)
  have d: "fetched (fst (searchNearby nearby_reply st_active))
     = [\<lparr>url = API_BASE_URL @ LOCATION_NEARBY,
         query = [(''latitude'', QNum (Num 22.5726)), (''longitude'', QNum (Num 88.3639)),
                  (''radius'', QNum (Num 1000)), (''excludeSelf'', QBool True)],
         fmethod = ''GET'',
         fheaders = [(''Content-Type'', ''application/json''), (''Authorization'', ''Bearer t0k'')],
         fbody = None, abort_after = Some 30000\<rparr>]"
    by (simp add: searchNearby_def st_active_fields st_active_def st0_def self_location_def
          getNearbyLocations_def
          getNearbyLocations_try_def isDemoMode_def getAuthToken_def DEMO_TOKEN_def
          fetch_and_handle_def buildHeaders_def fetchWithTimeout_def REQUEST_TIMEOUT_def
          opt_param_def nearby_reply_def split: prod.splits)
  have e: "currentLocation st_active \<noteq> None"
    by (simp add: st_active_fields)
  from a b c d e show ?thesis by simp
qed

end
